theory Spec2Isabelle
  imports Complex_Main "HOL-Library.Char_ord" "HOL-Library.List_Lexorder"
begin

section \<open>Project Samarth: entity extraction and answer generation (src/app.py)\<close>

text \<open>
  The development embeds the question-answering core of \<^verbatim>\<open>src/app.py\<close>:
  \<^verbatim>\<open>extract_entities\<close>, the three generators and \<^verbatim>\<open>generate_answer\<close>.

  Conventions of the embedding.
  \<^item> The question is a Python \<^verbatim>\<open>str\<close>, a sequence of Unicode code points: a
    \<open>pystr\<close>, a list of natural numbers. The literals of the source, the names in the
    tables and the texts of the answers are ASCII and stay \<open>string\<close>s; \<open>str\<close>
    turns a literal into its code points.
  \<^item> The classification of the code points into word characters, which \<^verbatim>\<open>\b\<close>
    of the \<^verbatim>\<open>re\<close> module reads from the Unicode tables of the Python runtime, is
    not part of the repository: it is the parameter \<open>wordchar\<close> of the extractor.
  \<^item> \<^verbatim>\<open>str.lower()\<close> on the question maps the ASCII capitals to their small
    letters and leaves every other code point alone. The keywords are ASCII, and the
    lower case of a code point outside ASCII is outside ASCII, but for U+0130 and
    U+212A, which give \<^verbatim>\<open>i\<close> before a combining dot and \<^verbatim>\<open>k\<close>: no keyword
    has a \<^verbatim>\<open>k\<close> or ends in \<^verbatim>\<open>i\<close>, so no keyword test tells the difference.
  \<^item> A Python \<^verbatim>\<open>dict\<close> is an association list in insertion order.
  \<^item> The table entries are Python \<^verbatim>\<open>int\<close>s; the true division \<^verbatim>\<open>/\<close> is exact
    division on \<open>rat\<close> (binary floating-point rounding is not modelled).
  \<^item> Every place where the Python can raise is a branch returning \<open>Inl\<close>.
\<close>

subsection \<open>Strings\<close>

type_synonym pystr = "nat list"

definition str :: "string \<Rightarrow> pystr" where
  "str s = map of_char s"

text \<open>
  The names of the states and the climate zones are ASCII strings of the tables;
  \<^verbatim>\<open>lower()\<close> and \<^verbatim>\<open>title()\<close> on them are the following.
\<close>

definition lower_char :: "char \<Rightarrow> char" where
  "lower_char c =
     (let n = (of_char c :: nat) in if 65 \<le> n \<and> n \<le> 90 then char_of (n + 32) else c)"

definition upper_char :: "char \<Rightarrow> char" where
  "upper_char c =
     (let n = (of_char c :: nat) in if 97 \<le> n \<and> n \<le> 122 then char_of (n - 32) else c)"

definition is_alpha :: "char \<Rightarrow> bool" where
  "is_alpha c =
     (let n = (of_char c :: nat) in (65 \<le> n \<and> n \<le> 90) \<or> (97 \<le> n \<and> n \<le> 122))"

definition lower :: "string \<Rightarrow> string" where
  "lower s = map lower_char s"

text \<open>
  \<^verbatim>\<open>str.title()\<close>: a letter that follows a letter is lower-cased, every other letter
  is upper-cased. The flag says whether the previous character was a letter.
\<close>

fun title_from :: "bool \<Rightarrow> string \<Rightarrow> string" where
  "title_from prev [] = []"
| "title_from prev (c # cs) =
     (if is_alpha c then (if prev then lower_char c else upper_char c) # title_from True cs
      else c # title_from False cs)"

definition title :: "string \<Rightarrow> string" where
  "title s = title_from False s"

text \<open>\<^verbatim>\<open>question.lower()\<close>.\<close>

definition lower_point :: "nat \<Rightarrow> nat" where
  "lower_point n = (if 65 \<le> n \<and> n \<le> 90 then n + 32 else n)"

definition py_lower :: "pystr \<Rightarrow> pystr" where
  "py_lower s = map lower_point s"

fun starts_with :: "'a list \<Rightarrow> 'a list \<Rightarrow> bool" where
  "starts_with [] s = True"
| "starts_with (k # ks) [] = False"
| "starts_with (k # ks) (c # cs) = (k = c \<and> starts_with ks cs)"

text \<open>\<^verbatim>\<open>keyword in text\<close> on strings: \<open>keyword\<close> occurs as a contiguous substring.\<close>

fun contains :: "'a list \<Rightarrow> 'a list \<Rightarrow> bool" where
  "contains k [] = (k = [])"
| "contains k (c # cs) = (starts_with k (c # cs) \<or> contains k cs)"

text \<open>\<^verbatim>\<open>any(keyword in text for keyword in keywords)\<close>.\<close>

definition any_in :: "string list \<Rightarrow> pystr \<Rightarrow> bool" where
  "any_in keywords text = list_ex (\<lambda>keyword. contains (str keyword) text) keywords"

text \<open>\<^verbatim>\<open>', '.join(xs)\<close>.\<close>

fun join_comma :: "string list \<Rightarrow> string" where
  "join_comma [] = []"
| "join_comma [x] = x"
| "join_comma (x # y # ys) = x @ '', '' @ join_comma (y # ys)"

text \<open>
  The classification of \<^verbatim>\<open>re.ASCII\<close>: the ASCII letters, the ASCII digits and the
  underscore. The Unicode classification of the runtime agrees with it on ASCII and has
  more word characters beyond.
\<close>

definition ascii_wordchar :: "nat \<Rightarrow> bool" where
  "ascii_wordchar n =
     ((65 \<le> n \<and> n \<le> 90) \<or> (97 \<le> n \<and> n \<le> 122) \<or> (48 \<le> n \<and> n \<le> 57) \<or> n = 95)"

subsection \<open>Entity extraction\<close>

record entities =
  states :: "string list"
  crops :: "string list"
  years :: "pystr list"
  metrics :: "string list"
  comparison_type :: "string option"

definition state_keywords :: "(string \<times> string list) list" where
  "state_keywords =
     [(''rajasthan'', [''rajasthan'', ''raj'']),
      (''punjab'', [''punjab'']),
      (''gujarat'', [''gujarat'']),
      (''haryana'', [''haryana''])]"

definition crop_keywords :: "(string \<times> string list) list" where
  "crop_keywords =
     [(''Bajra'', [''bajra'', ''pearl millet'', ''millet'']),
      (''Wheat'', [''wheat'']),
      (''Rice'', [''rice'', ''paddy'']),
      (''Cotton'', [''cotton'']),
      (''Groundnut'', [''groundnut'', ''peanut'']),
      (''Guar'', [''guar'', ''cluster bean''])]"

text \<open>
  The loop \<^verbatim>\<open>for name, keywords in table.items(): if any(...): result.append(name)\<close>,
  started on the empty list.
\<close>

fun collect_matches :: "(string \<times> string list) list \<Rightarrow> pystr \<Rightarrow> string list" where
  "collect_matches [] question_lower = []"
| "collect_matches ((name, keywords) # rest) question_lower =
     (if any_in keywords question_lower then name # collect_matches rest question_lower
      else collect_matches rest question_lower)"

text \<open>
  \<^verbatim>\<open>re.findall(r'\b(201[8-9]|202[0-4])\b', question)\<close>. The scan goes from left to
  right; \<open>prev_word\<close> says whether the code point before the current position is a
  word character (\<open>False\<close> at the start of the string). \<^verbatim>\<open>\b\<close> holds at a
  position when exactly one of the code points before and after it is a word character,
  the start and the end of the string counting as non-word. A match needs a boundary
  before the first digit, one of the seven year numerals, and a boundary after the
  fourth digit; after a match the scan goes on behind it, otherwise one code point on.
\<close>

definition year_prefix :: "pystr \<Rightarrow> bool" where
  "year_prefix s =
     (case s of
        a # b # c # d # rest \<Rightarrow>
          a = of_char CHR ''2'' \<and> b = of_char CHR ''0'' \<and>
          ((c = of_char CHR ''1'' \<and> (d = of_char CHR ''8'' \<or> d = of_char CHR ''9'')) \<or>
           (c = of_char CHR ''2'' \<and>
            (d = of_char CHR ''0'' \<or> d = of_char CHR ''1'' \<or> d = of_char CHR ''2'' \<or>
             d = of_char CHR ''3'' \<or> d = of_char CHR ''4'')))
      | _ \<Rightarrow> False)"

definition is_word_at :: "(nat \<Rightarrow> bool) \<Rightarrow> pystr \<Rightarrow> bool" where
  "is_word_at wordchar s = (case s of [] \<Rightarrow> False | c # cs \<Rightarrow> wordchar c)"

function year_scan :: "(nat \<Rightarrow> bool) \<Rightarrow> bool \<Rightarrow> pystr \<Rightarrow> pystr list" where
  "year_scan wordchar prev_word s =
     (if s = [] then []
      else if prev_word \<noteq> is_word_at wordchar s \<and> year_prefix s \<and>
              wordchar (s ! 3) \<noteq> is_word_at wordchar (drop 4 s)
        then take 4 s # year_scan wordchar (wordchar (s ! 3)) (drop 4 s)
      else year_scan wordchar (wordchar (hd s)) (tl s))"
  by pat_completeness auto
termination
  by (relation "measure (\<lambda>(w, p, s). length s)")
    (auto simp: year_prefix_def split: list.splits)

declare year_scan.simps [simp del]

definition find_years :: "(nat \<Rightarrow> bool) \<Rightarrow> pystr \<Rightarrow> pystr list" where
  "find_years wordchar question = year_scan wordchar False question"

definition extract_metrics :: "pystr \<Rightarrow> string list" where
  "extract_metrics question_lower =
     (if contains (str ''rainfall'') question_lower then [''rainfall''] else []) @
     (if contains (str ''production'') question_lower \<or> contains (str ''yield'') question_lower
        then [''production''] else []) @
     (if contains (str ''drought'') question_lower then [''drought_resistance''] else []) @
     (if contains (str ''water'') question_lower then [''water_requirement''] else [])"

definition extract_comparison_type :: "pystr \<Rightarrow> string option" where
  "extract_comparison_type question_lower =
     (if contains (str ''compare'') question_lower then Some ''comparison''
      else if contains (str ''trend'') question_lower then Some ''trend''
      else if contains (str ''argument'') question_lower \<or> contains (str ''promote'') question_lower
        then Some ''policy_arguments''
      else None)"

definition extract_entities :: "(nat \<Rightarrow> bool) \<Rightarrow> pystr \<Rightarrow> entities" where
  "extract_entities wordchar question =
     (let question_lower = py_lower question in
      \<lparr>states = collect_matches state_keywords question_lower,
       crops = collect_matches crop_keywords question_lower,
       years = find_years wordchar question,
       metrics = extract_metrics question_lower,
       comparison_type = extract_comparison_type question_lower\<rparr>)"

subsection \<open>The static dataset\<close>

datatype py_error = IndexError | KeyError | ZeroDivisionError

type_synonym series = "(string \<times> int) list"

text \<open>
  One state's entry of \<^verbatim>\<open>AGRICULTURAL_DATA\<close> (keys \<^verbatim>\<open>"crops"\<close> and
  \<^verbatim>\<open>"water_requirements"\<close>) and of \<^verbatim>\<open>CLIMATE_DATA\<close>.
\<close>

record state_agriculture =
  st_crops :: "(string \<times> series) list"
  st_water_requirements :: "(string \<times> string) list"

record state_climate =
  rainfall :: series
  drought_years :: "string list"
  avg_temperature :: rat
  climate_zone :: string

definition AGRICULTURAL_DATA :: "(string \<times> state_agriculture) list" where
  "AGRICULTURAL_DATA =
     [(''rajasthan'',
       \<lparr>st_crops =
          [(''Bajra'', [(''2018'', 4500), (''2019'', 4200), (''2020'', 3800), (''2021'', 3500), (''2022'', 4000)]),
           (''Wheat'', [(''2018'', 3200), (''2019'', 3100), (''2020'', 2800), (''2021'', 2500), (''2022'', 2700)]),
           (''Groundnut'', [(''2018'', 800), (''2019'', 750), (''2020'', 700), (''2021'', 650), (''2022'', 720)]),
           (''Guar'', [(''2018'', 600), (''2019'', 620), (''2020'', 580), (''2021'', 550), (''2022'', 590)]),
           (''Rice'', [(''2018'', 1200), (''2019'', 1100), (''2020'', 900), (''2021'', 800), (''2022'', 850)])],
        st_water_requirements =
          [(''Bajra'', ''Low (350-400mm)''),
           (''Wheat'', ''High (500-600mm)''),
           (''Groundnut'', ''Medium (400-500mm)''),
           (''Guar'', ''Very Low (250-300mm)''),
           (''Rice'', ''Very High (1200-1500mm)'')]\<rparr>),
      (''punjab'',
       \<lparr>st_crops =
          [(''Wheat'', [(''2018'', 18000), (''2019'', 17500), (''2020'', 17000), (''2021'', 16500), (''2022'', 16800)]),
           (''Rice'', [(''2018'', 16000), (''2019'', 15800), (''2020'', 15500), (''2021'', 15200), (''2022'', 15400)]),
           (''Cotton'', [(''2018'', 2000), (''2019'', 1900), (''2020'', 1850), (''2021'', 1800), (''2022'', 1820)]),
           (''Bajra'', [(''2018'', 800), (''2019'', 750), (''2020'', 700), (''2021'', 650), (''2022'', 680)])],
        st_water_requirements =
          [(''Wheat'', ''High (500-600mm)''),
           (''Rice'', ''Very High (1200-1500mm)''),
           (''Cotton'', ''Medium (400-500mm)''),
           (''Bajra'', ''Low (350-400mm)'')]\<rparr>)]"

definition CLIMATE_DATA :: "(string \<times> state_climate) list" where
  "CLIMATE_DATA =
     [(''rajasthan'',
       \<lparr>rainfall = [(''2018'', 450), (''2019'', 380), (''2020'', 320), (''2021'', 290), (''2022'', 410)],
        drought_years = [''2020'', ''2021''],
        avg_temperature = 57 / 2,
        climate_zone = ''Arid''\<rparr>),
      (''punjab'',
       \<lparr>rainfall = [(''2018'', 650), (''2019'', 620), (''2020'', 580), (''2021'', 590), (''2022'', 610)],
        drought_years = [],
        avg_temperature = 24,
        climate_zone = ''Semi-Arid''\<rparr>)]"

text \<open>The fields of \<^verbatim>\<open>DataSource\<close> are \<^verbatim>\<open>name\<close>, \<^verbatim>\<open>url\<close> and \<^verbatim>\<open>description\<close>.\<close>

record data_source =
  ds_name :: string
  ds_url :: string
  ds_description :: string

definition agriculture_source :: data_source where
  "agriculture_source =
     \<lparr>ds_name = ''Ministry of Agriculture - Crop Production Statistics'',
      ds_url = ''https://data.gov.in/resource/all-india-season-wise-crop-production-statistics'',
      ds_description = ''State-wise and crop-wise production data from 2018-2022''\<rparr>"

definition climate_source :: data_source where
  "climate_source =
     \<lparr>ds_name = ''India Meteorological Department - Rainfall Data'',
      ds_url = ''https://data.gov.in/resource/district-wise-rainfall-normal'',
      ds_description = ''Historical rainfall patterns and climate data from 2018-2022''\<rparr>"

definition DATA_SOURCES :: "(string \<times> data_source) list" where
  "DATA_SOURCES = [(''agriculture'', agriculture_source), (''climate'', climate_source)]"

subsection \<open>Dictionaries and arithmetic\<close>

text \<open>\<^verbatim>\<open>d[k]\<close>, \<^verbatim>\<open>d.get(k, dflt)\<close>, \<^verbatim>\<open>k in d\<close> and \<^verbatim>\<open>d[k] = v\<close>.\<close>

definition lookup :: "('k \<times> 'v) list \<Rightarrow> 'k \<Rightarrow> py_error + 'v" where
  "lookup d k = (case map_of d k of None \<Rightarrow> Inl KeyError | Some v \<Rightarrow> Inr v)"

definition get_or :: "('k \<times> 'v) list \<Rightarrow> 'k \<Rightarrow> 'v \<Rightarrow> 'v" where
  "get_or d k dflt = (case map_of d k of None \<Rightarrow> dflt | Some v \<Rightarrow> v)"

definition has_key :: "('k \<times> 'v) list \<Rightarrow> 'k \<Rightarrow> bool" where
  "has_key d k = (map_of d k \<noteq> None)"

fun dict_set :: "'k \<Rightarrow> 'v \<Rightarrow> ('k \<times> 'v) list \<Rightarrow> ('k \<times> 'v) list" where
  "dict_set k v [] = [(k, v)]"
| "dict_set k v (p # ps) = (if fst p = k then (k, v) # ps else p # dict_set k v ps)"

text \<open>\<^verbatim>\<open>CLIMATE_DATA.get(state, {}).get(field, dflt)\<close> and the same on \<^verbatim>\<open>AGRICULTURAL_DATA\<close>.\<close>

definition climate_rainfall :: "string \<Rightarrow> series" where
  "climate_rainfall state =
     (case map_of CLIMATE_DATA state of None \<Rightarrow> [] | Some c \<Rightarrow> rainfall c)"

definition climate_drought_years :: "string \<Rightarrow> string list" where
  "climate_drought_years state =
     (case map_of CLIMATE_DATA state of None \<Rightarrow> [] | Some c \<Rightarrow> drought_years c)"

definition climate_zone_of :: "string \<Rightarrow> string" where
  "climate_zone_of state =
     (case map_of CLIMATE_DATA state of None \<Rightarrow> ''Unknown'' | Some c \<Rightarrow> climate_zone c)"

definition agri_crops :: "string \<Rightarrow> (string \<times> series) list" where
  "agri_crops state =
     (case map_of AGRICULTURAL_DATA state of None \<Rightarrow> [] | Some a \<Rightarrow> st_crops a)"

definition agri_water :: "string \<Rightarrow> (string \<times> string) list" where
  "agri_water state =
     (case map_of AGRICULTURAL_DATA state of None \<Rightarrow> [] | Some a \<Rightarrow> st_water_requirements a)"

text \<open>\<^verbatim>\<open>sum(xs) / len(xs)\<close>, which raises on the empty list.\<close>

definition average :: "int list \<Rightarrow> py_error + rat" where
  "average xs =
     (if length xs = 0 then Inl ZeroDivisionError
      else Inr (of_int (sum_list xs) / of_nat (length xs)))"

text \<open>
  \<^verbatim>\<open>sum(xs) / len(xs) if xs else dflt\<close>: the guarded form the generators use, which
  cannot raise.
\<close>

definition average_or :: "int list \<Rightarrow> rat \<Rightarrow> rat" where
  "average_or xs dflt =
     (if xs \<noteq> [] then of_int (sum_list xs) / of_nat (length xs) else dflt)"

definition calculate_variance :: "int list \<Rightarrow> rat" where
  "calculate_variance data =
     (if length data = 0 then 0
      else
        let mean = of_int (sum_list data) / of_nat (length data) in
        sum_list (map (\<lambda>x. (of_int x - mean) ^ 2) data) / of_nat (length data))"

text \<open>
  \<^verbatim>\<open>(values[-1] - values[0]) / len(values)\<close>, the expression of lines 347 and 360.
  The subscripts raise on the empty list before the division is reached.
\<close>

definition linear_trend :: "int list \<Rightarrow> py_error + rat" where
  "linear_trend values =
     (if values = [] then Inl IndexError
      else Inr (of_int (last values - hd values) / of_nat (length values)))"

subsection \<open>Answers\<close>

text \<open>
  An answer is the sequence of the pieces that the f-strings concatenate. Numbers stay
  unrendered: \<open>Fixed0 x\<close> is \<^verbatim>\<open>{x:.0f}\<close>, \<open>Fixed1 x\<close> is \<^verbatim>\<open>{x:.1f}\<close>,
  \<open>Grouped0 x\<close> is \<^verbatim>\<open>{x:,.0f}\<close>, \<open>Index i\<close> is \<^verbatim>\<open>{i}\<close> for an integer and
  \<open>Repr xs\<close> is \<^verbatim>\<open>{xs}\<close> for a list of strings.
\<close>

datatype piece =
  Txt string | Fixed0 rat | Fixed1 rat | Grouped0 rat | Index nat | Repr "string list"

record stability =
  average_production :: rat
  production_variance :: rat
  drought_resilience :: "piece list"

record policy_points =
  pp_average_rainfall :: rat
  pp_drought_years :: "string list"
  pp_climate_zone :: string
  pp_crop_stability :: "(string \<times> stability) list"
  pp_water_requirements :: "(string \<times> string) list"

record comparison_entry =
  cmp_rainfall :: series
  cmp_crop_production :: "(string \<times> series) list"
  cmp_climate_zone :: string

record trend_points =
  rainfall_trend :: series
  crop_trends :: "(string \<times> series) list"

datatype data_points =
  PolicyPoints policy_points
| ComparisonPoints "(string \<times> comparison_entry) list"
| TrendPoints trend_points

record result =
  answer :: "piece list"
  data_points :: data_points
  sources :: "data_source list"

text \<open>\<^verbatim>\<open>[DATA_SOURCES["agriculture"], DATA_SOURCES["climate"]]\<close>.\<close>

definition source_list :: "py_error + data_source list" where
  "source_list =
     (case lookup DATA_SOURCES ''agriculture'' of
        Inl e \<Rightarrow> Inl e
      | Inr a \<Rightarrow>
          (case lookup DATA_SOURCES ''climate'' of
             Inl e \<Rightarrow> Inl e
           | Inr c \<Rightarrow> Inr [a, c]))"

text \<open>\<^verbatim>\<open>entities["states"][0] if entities["states"] else "rajasthan"\<close>.\<close>

definition target_state :: "entities \<Rightarrow> string" where
  "target_state e = (case states e of [] \<Rightarrow> ''rajasthan'' | s # rest \<Rightarrow> s)"

text \<open>\<^verbatim>\<open>entities["crops"] if entities["crops"] else ["Bajra", "Wheat"]\<close>.\<close>

definition requested_crops :: "entities \<Rightarrow> string list" where
  "requested_crops e = (if crops e \<noteq> [] then crops e else [''Bajra'', ''Wheat''])"

subsection \<open>The policy-argument generator\<close>

text \<open>
  Lines 211 to 218: the loop that sorts a crop's yearly production into drought years
  and other years, with the two lists as accumulators.
\<close>

fun split_performance ::
  "series \<Rightarrow> string list \<Rightarrow> int list \<Rightarrow> int list \<Rightarrow> int list \<times> int list" where
  "split_performance [] dry drought_performance normal_performance =
     (drought_performance, normal_performance)"
| "split_performance ((year, production) # rest) dry drought_performance normal_performance =
     (if year \<in> set dry
      then split_performance rest dry (drought_performance @ [production]) normal_performance
      else split_performance rest dry drought_performance (normal_performance @ [production]))"

text \<open>Lines 208 to 223, for one crop's table \<open>production_data\<close> of the target state.\<close>

definition resilience_ratio :: "series \<Rightarrow> string list \<Rightarrow> rat" where
  "resilience_ratio production_data dry =
     (let production_values = map snd production_data;
          avg_production = of_int (sum_list production_values) / of_nat (length production_values);
          (drought_performance, normal_performance) = split_performance production_data dry [] [];
          avg_drought = average_or drought_performance 0;
          avg_normal = average_or normal_performance avg_production
      in if avg_normal > 0 then avg_drought / avg_normal * 100 else 0)"

text \<open>
  Lines 204 to 229: the entry of \<^verbatim>\<open>stability_data\<close> for one crop, if the crop has more
  than one yearly value.
\<close>

definition crop_stability :: "series \<Rightarrow> string list \<Rightarrow> stability option" where
  "crop_stability production_data dry =
     (let production_values = map snd production_data in
      if length production_values > 1 then
        Some \<lparr>average_production =
                 of_int (sum_list production_values) / of_nat (length production_values),
              production_variance = calculate_variance production_values,
              drought_resilience = [Fixed1 (resilience_ratio production_data dry), Txt ''%'']\<rparr>
      else None)"

text \<open>Lines 202 to 229: the loop over the four categorised crops.\<close>

fun stability_loop ::
  "string list \<Rightarrow> (string \<times> series) list \<Rightarrow> string list \<Rightarrow> (string \<times> stability) list \<Rightarrow>
   py_error + (string \<times> stability) list" where
  "stability_loop [] crop_data dry stability_data = Inr stability_data"
| "stability_loop (crop # rest) crop_data dry stability_data =
     (if has_key crop_data crop then
        (case lookup crop_data crop of
           Inl e \<Rightarrow> Inl e
         | Inr production_data \<Rightarrow>
             (case crop_stability production_data dry of
                None \<Rightarrow> stability_loop rest crop_data dry stability_data
              | Some entry \<Rightarrow>
                  stability_loop rest crop_data dry (dict_set crop entry stability_data)))
      else stability_loop rest crop_data dry stability_data)"

definition drought_resistant_crops :: "string list" where
  "drought_resistant_crops = [''Bajra'', ''Guar'']"

definition water_intensive_crops :: "string list" where
  "water_intensive_crops = [''Rice'', ''Wheat'']"

text \<open>
  The loops of lines 239 to 241 and 269 to 271 over the drought-resistant crops that have
  a water-requirement label.
\<close>

fun water_savings :: "string list \<Rightarrow> (string \<times> string) list \<Rightarrow> py_error + (string \<times> string) list" where
  "water_savings [] water_req_data = Inr []"
| "water_savings (crop # rest) water_req_data =
     (if has_key water_req_data crop then
        (case lookup water_req_data crop of
           Inl e \<Rightarrow> Inl e
         | Inr label \<Rightarrow>
             (case water_savings rest water_req_data of
                Inl e \<Rightarrow> Inl e
              | Inr others \<Rightarrow> Inr ((crop, label) # others)))
      else water_savings rest water_req_data)"

fun recommended_lines :: "(string \<times> string) list \<Rightarrow> piece list" where
  "recommended_lines [] = []"
| "recommended_lines ((crop, label) # rest) =
     [Txt ''- **'', Txt crop, Txt ''**: '', Txt label, Txt '' water requirement\<newline>''] @
     recommended_lines rest"

text \<open>
  An argument is its title and its content; the \<^verbatim>\<open>"data"\<close> entry of the first
  argument holds the local values \<open>avg_rainfall\<close>, \<open>climate_zone\<close> and \<open>dry\<close>
  that the loop of lines 256 to 266 prints, and every argument has a \<^verbatim>\<open>"data"\<close> key.
\<close>

fun argument_blocks ::
  "nat \<Rightarrow> (string \<times> piece list) list \<Rightarrow> rat \<Rightarrow> string \<Rightarrow> string list \<Rightarrow> piece list" where
  "argument_blocks i [] avg_rainfall zone dry = []"
| "argument_blocks i ((arg_title, arg_content) # rest) avg_rainfall zone dry =
     [Txt ''### '', Index i, Txt ''. '', Txt arg_title, Txt ''\<newline>''] @
     arg_content @ [Txt ''\<newline>\<newline>''] @
     (if i = 1 then
        [Txt ''- Average Rainfall: '', Fixed0 avg_rainfall, Txt ''mm\<newline>'',
         Txt ''- Climate Zone: '', Txt zone, Txt ''\<newline>'',
         Txt ''- Recent Drought Years: '',
         Txt (if dry \<noteq> [] then join_comma dry else ''None''), Txt ''\<newline>'']
      else []) @
     [Txt ''\<newline>''] @
     argument_blocks (Suc i) rest avg_rainfall zone dry"

definition generate_policy_arguments :: "entities \<Rightarrow> py_error + result" where
  "generate_policy_arguments e =
     (let state = target_state e;
          rainfall_data = climate_rainfall state;
          avg_rainfall = average_or (map snd rainfall_data) 0;
          dry = climate_drought_years state;
          zone = climate_zone_of state;
          crop_data = agri_crops state;
          water_req_data = agri_water state
      in
      case stability_loop (drought_resistant_crops @ water_intensive_crops) crop_data dry [] of
        Inl err \<Rightarrow> Inl err
      | Inr stability_data \<Rightarrow>
      case water_savings drought_resistant_crops water_req_data of
        Inl err \<Rightarrow> Inl err
      | Inr water_savings_comparison \<Rightarrow>
      case source_list of
        Inl err \<Rightarrow> Inl err
      | Inr srcs \<Rightarrow>
        let arguments =
              [(''Water Scarcity Adaptation'',
                [Txt ''**'', Txt (title state), Txt ''** receives only **'', Fixed0 avg_rainfall,
                 Txt ''mm** average annual rainfall (classified as '', Txt (lower zone),
                 Txt '') with recent drought years in '', Repr dry,
                 Txt ''. Drought-resistant crops like Bajra and Guar require **60-70% less water** than water-intensive alternatives like Rice and Wheat.'']),
               (''Economic Resilience'',
                [Txt ''Drought-resistant crops maintain higher production levels during drought years, providing economic stability to farmers when they need it most.'']),
               (''Sustainable Resource Management'',
                [Txt ''With groundwater levels in '', Txt (title state),
                 Txt '' declining rapidly, shifting to low-water crops is essential for long-term agricultural sustainability.''])]
        in
        Inr \<lparr>answer =
               [Txt ''## Data-Backed Arguments for Promoting Drought-Resistant Crops in '',
                Txt (title state), Txt ''\<newline>\<newline>'',
                Txt ''Based on integrated analysis of climate and agricultural data from 2018-2022:\<newline>\<newline>''] @
               argument_blocks 1 arguments avg_rainfall zone dry @
               [Txt ''### Recommended Drought-Resistant Crops:\<newline>''] @
               recommended_lines water_savings_comparison,
             data_points =
               PolicyPoints
                 \<lparr>pp_average_rainfall = avg_rainfall,
                  pp_drought_years = dry,
                  pp_climate_zone = zone,
                  pp_crop_stability = stability_data,
                  pp_water_requirements =
                    map (\<lambda>crop. (crop, get_or water_req_data crop ''Unknown''))
                      (drought_resistant_crops @ water_intensive_crops)\<rparr>,
             sources = srcs\<rparr>)"

subsection \<open>The comparison generator\<close>

text \<open>\<^verbatim>\<open>entities["states"] if entities["states"] else ["rajasthan", "punjab"]\<close>.\<close>

definition compared_states :: "entities \<Rightarrow> string list" where
  "compared_states e = (if states e \<noteq> [] then states e else [''rajasthan'', ''punjab''])"

text \<open>
  Lines 301 to 303: the inner loop, filling \<^verbatim>\<open>comparison_data[state]["crop_production"]\<close>
  for one state.
\<close>

fun crop_production_loop ::
  "string \<Rightarrow> string list \<Rightarrow> (string \<times> series) list \<Rightarrow> py_error + (string \<times> series) list" where
  "crop_production_loop state [] crop_production = Inr crop_production"
| "crop_production_loop state (crop # rest) crop_production =
     (if has_key (agri_crops state) crop then
        (case lookup AGRICULTURAL_DATA state of
           Inl err \<Rightarrow> Inl err
         | Inr a \<Rightarrow>
             (case lookup (st_crops a) crop of
                Inl err \<Rightarrow> Inl err
              | Inr production \<Rightarrow>
                  crop_production_loop state rest (dict_set crop production crop_production)))
      else crop_production_loop state rest crop_production)"

text \<open>Lines 295 to 303: the loop over the states.\<close>

fun comparison_loop ::
  "string list \<Rightarrow> string list \<Rightarrow> (string \<times> comparison_entry) list \<Rightarrow>
   py_error + (string \<times> comparison_entry) list" where
  "comparison_loop [] crop_names comparison_data = Inr comparison_data"
| "comparison_loop (state # rest) crop_names comparison_data =
     (case crop_production_loop state crop_names [] of
        Inl err \<Rightarrow> Inl err
      | Inr crop_production \<Rightarrow>
          comparison_loop rest crop_names
            (dict_set state
               \<lparr>cmp_rainfall = climate_rainfall state,
                cmp_crop_production = crop_production,
                cmp_climate_zone = climate_zone_of state\<rparr>
               comparison_data))"

text \<open>Lines 315 to 318: the lines of one state's crops.\<close>

fun crop_lines :: "string \<Rightarrow> (string \<times> series) list \<Rightarrow> py_error + piece list" where
  "crop_lines state [] = Inr []"
| "crop_lines state ((crop, production) # rest) =
     (case average (map snd production) of
        Inl err \<Rightarrow> Inl err
      | Inr avg_production \<Rightarrow>
          (case lookup AGRICULTURAL_DATA state of
             Inl err \<Rightarrow> Inl err
           | Inr a \<Rightarrow>
               (case crop_lines state rest of
                  Inl err \<Rightarrow> Inl err
                | Inr others \<Rightarrow>
                    Inr ([Txt ''- **'', Txt crop, Txt ''**: '', Grouped0 avg_production,
                          Txt '' thousand tonnes (Water: '',
                          Txt (get_or (st_water_requirements a) crop ''Unknown''),
                          Txt '')\<newline>''] @ others))))"

text \<open>Lines 308 to 319: one section per state.\<close>

fun state_sections ::
  "string list \<Rightarrow> (string \<times> comparison_entry) list \<Rightarrow> py_error + piece list" where
  "state_sections [] comparison_data = Inr []"
| "state_sections (state # rest) comparison_data =
     (case lookup comparison_data state of
        Inl err \<Rightarrow> Inl err
      | Inr entry \<Rightarrow>
          (case crop_lines state (cmp_crop_production entry) of
             Inl err \<Rightarrow> Inl err
           | Inr crop_part \<Rightarrow>
               (case state_sections rest comparison_data of
                  Inl err \<Rightarrow> Inl err
                | Inr others \<Rightarrow>
                    Inr ([Txt ''### '', Txt (title state), Txt ''\<newline>'',
                          Txt ''- **Climate Zone**: '', Txt (cmp_climate_zone entry),
                          Txt ''\<newline>'',
                          Txt ''- **Average Rainfall**: '',
                          Fixed1 (average_or (map snd (cmp_rainfall entry)) 0),
                          Txt ''mm\<newline>''] @
                         crop_part @ [Txt ''\<newline>''] @ others))))"

definition generate_comparison :: "entities \<Rightarrow> py_error + result" where
  "generate_comparison e =
     (let state_names = compared_states e;
          crop_names = requested_crops e
      in
      case comparison_loop state_names crop_names [] of
        Inl err \<Rightarrow> Inl err
      | Inr comparison_data \<Rightarrow>
      case state_sections state_names comparison_data of
        Inl err \<Rightarrow> Inl err
      | Inr sections \<Rightarrow>
      case source_list of
        Inl err \<Rightarrow> Inl err
      | Inr srcs \<Rightarrow>
        Inr \<lparr>answer =
               [Txt ''## Comparative Analysis: '', Txt (join_comma (map title state_names)),
                Txt ''\<newline>\<newline>''] @ sections,
             data_points = ComparisonPoints comparison_data,
             sources = srcs\<rparr>)"

subsection \<open>The trend generator\<close>

text \<open>
  The string literals of lines 349 and 362, byte for byte as the source file has them.
\<close>

definition rainfall_up :: string where
  "rainfall_up =
     [CHR 0xC3, CHR 0xA2, CHR 0xE2, CHR 0x80, CHR 0xA0, CHR 0xE2, CHR 0x80, CHR 0x98] @
     '' Increasing''"

definition rainfall_down :: string where
  "rainfall_down =
     [CHR 0xC3, CHR 0xA2, CHR 0xE2, CHR 0x80, CHR 0xA0, CHR 0xE2, CHR 0x80, CHR 0x9C] @
     '' Decreasing''"

definition icon_up :: string where
  "icon_up = [CHR 0xC3, CHR 0xB0, CHR 0xC5, CHR 0xB8, CHR 0xE2, CHR 0x80, CHR 0x9C, CHR 0xCB, CHR 0x86]"

definition icon_down :: string where
  "icon_down =
     [CHR 0xC3, CHR 0xB0, CHR 0xC5, CHR 0xB8, CHR 0xE2, CHR 0x80, CHR 0x9C, CHR 0xE2, CHR 0x80, CHR 0xB0]"

text \<open>Lines 345 to 350: the climate part of the answer.\<close>

definition rainfall_part :: "string \<Rightarrow> series \<Rightarrow> py_error + piece list" where
  "rainfall_part state rainfall_data =
     (let rainfall_values = map snd rainfall_data in
      if length rainfall_values > 1 then
        (case linear_trend rainfall_values of
           Inl err \<Rightarrow> Inl err
         | Inr trend \<Rightarrow>
             (case lookup CLIMATE_DATA state of
                Inl err \<Rightarrow> Inl err
              | Inr c \<Rightarrow>
                  Inr [Txt ''### Climate Trends\<newline>'',
                       Txt ''- **Rainfall Trend**: '',
                       Txt (if trend > 0 then rainfall_up else rainfall_down),
                       Txt '' by '', Fixed1 \<bar>trend\<bar>, Txt ''mm per year\<newline>'',
                       Txt ''- **Drought Years**: '', Repr (drought_years c),
                       Txt ''\<newline>\<newline>'']))
      else Inr [])"

text \<open>\<^verbatim>\<open>[production_data[year] for year in year_labels]\<close>.\<close>

fun lookup_all :: "series \<Rightarrow> string list \<Rightarrow> py_error + int list" where
  "lookup_all production_data [] = Inr []"
| "lookup_all production_data (year # rest) =
     (case lookup production_data year of
        Inl err \<Rightarrow> Inl err
      | Inr v \<Rightarrow>
          (case lookup_all production_data rest of
             Inl err \<Rightarrow> Inl err
           | Inr vs \<Rightarrow> Inr (v # vs)))"

text \<open>Lines 359 and 360: the production trend of one crop.\<close>

definition production_trend :: "series \<Rightarrow> py_error + rat" where
  "production_trend production_data =
     (case lookup_all production_data (sort (map fst production_data)) of
        Inl err \<Rightarrow> Inl err
      | Inr production_values \<Rightarrow> linear_trend production_values)"

text \<open>Lines 358 to 363: the answer line of one crop.\<close>

definition trend_line :: "string \<Rightarrow> series \<Rightarrow> py_error + piece list" where
  "trend_line crop production_data =
     (case production_trend production_data of
        Inl err \<Rightarrow> Inl err
      | Inr trend \<Rightarrow>
          Inr [Txt ''- **'', Txt crop, Txt ''**: '',
               Txt (if trend > 0 then icon_up else icon_down), Txt '' '',
               Txt (if trend > 0 then ''Increasing'' else ''Decreasing''),
               Txt '' by '', Fixed1 \<bar>trend\<bar>, Txt '' thousand tonnes/year\<newline>''])"

text \<open>Lines 356 to 363: the loop over the requested crops.\<close>

fun trend_lines :: "string list \<Rightarrow> (string \<times> series) list \<Rightarrow> py_error + piece list" where
  "trend_lines [] crop_data = Inr []"
| "trend_lines (crop # rest) crop_data =
     (if has_key crop_data crop then
        (case lookup crop_data crop of
           Inl err \<Rightarrow> Inl err
         | Inr production_data \<Rightarrow>
             (case trend_line crop production_data of
                Inl err \<Rightarrow> Inl err
              | Inr line \<Rightarrow>
                  (case trend_lines rest crop_data of
                     Inl err \<Rightarrow> Inl err
                   | Inr others \<Rightarrow> Inr (line @ others))))
      else trend_lines rest crop_data)"

text \<open>
  The loop of lines 337 to 339, filling \<^verbatim>\<open>trend_data["crop_trends"]\<close>, is the
  inner loop of the comparison generator run for the target state.
\<close>

definition generate_trend_analysis :: "entities \<Rightarrow> py_error + result" where
  "generate_trend_analysis e =
     (let state = target_state e;
          crop_names = requested_crops e
      in
      case crop_production_loop state crop_names [] of
        Inl err \<Rightarrow> Inl err
      | Inr trends \<Rightarrow>
      case rainfall_part state (climate_rainfall state) of
        Inl err \<Rightarrow> Inl err
      | Inr climate_part \<Rightarrow>
      case trend_lines crop_names (agri_crops state) of
        Inl err \<Rightarrow> Inl err
      | Inr crop_part \<Rightarrow>
      case source_list of
        Inl err \<Rightarrow> Inl err
      | Inr srcs \<Rightarrow>
        Inr \<lparr>answer =
               [Txt ''## Trend Analysis for '', Txt (title state),
                Txt '' (2018-2022)\<newline>\<newline>''] @
               climate_part @ [Txt ''### Crop Production Trends\<newline>''] @ crop_part,
             data_points =
               TrendPoints \<lparr>rainfall_trend = climate_rainfall state, crop_trends = trends\<rparr>,
             sources = srcs\<rparr>)"

subsection \<open>The dispatcher\<close>

definition fallback_words :: "string list" where
  "fallback_words = [''drought'', ''resistant'', ''promote'', ''argument'']"

definition generate_answer :: "entities \<Rightarrow> pystr \<Rightarrow> py_error + result" where
  "generate_answer e question =
     (if comparison_type e = Some ''policy_arguments'' then generate_policy_arguments e
      else if comparison_type e = Some ''comparison'' then generate_comparison e
      else if comparison_type e = Some ''trend'' then generate_trend_analysis e
      else if list_ex (\<lambda>word. contains (str word) (py_lower question)) fallback_words
        then generate_policy_arguments e
      else generate_comparison e)"

subsection \<open>Year tokens in the words of the specification\<close>

text \<open>
  The specification describes the extracted years as the word-bounded 4-digit tokens
  with a value from 2018 to 2024. The definitions below follow that wording and not the
  regular expression: a token is a maximal run of word characters, and a year token has
  four ASCII decimal digits whose value is in the range. \<open>tokens_from wordchar cur s\<close>
  splits \<open>s\<close> with \<open>cur\<close> as the token read so far.
\<close>

fun tokens_from :: "(nat \<Rightarrow> bool) \<Rightarrow> pystr \<Rightarrow> pystr \<Rightarrow> pystr list" where
  "tokens_from wordchar cur [] = (if cur = [] then [] else [cur])"
| "tokens_from wordchar cur (c # cs) =
     (if wordchar c then tokens_from wordchar (cur @ [c]) cs
      else (if cur = [] then [] else [cur]) @ tokens_from wordchar [] cs)"

definition spec_word_tokens :: "(nat \<Rightarrow> bool) \<Rightarrow> pystr \<Rightarrow> pystr list" where
  "spec_word_tokens wordchar question = tokens_from wordchar [] question"

definition is_ascii_digit :: "nat \<Rightarrow> bool" where
  "is_ascii_digit n = (48 \<le> n \<and> n \<le> 57)"

definition digit_value :: "nat \<Rightarrow> nat" where
  "digit_value n = n - 48"

definition decimal_value :: "pystr \<Rightarrow> nat" where
  "decimal_value t = foldl (\<lambda>n c. 10 * n + digit_value c) 0 t"

definition spec_is_year_token :: "pystr \<Rightarrow> bool" where
  "spec_is_year_token t =
     (length t = 4 \<and> list_all is_ascii_digit t \<and>
      2018 \<le> decimal_value t \<and> decimal_value t \<le> 2024)"

section \<open>Properties\<close>

subsection \<open>Intent detection\<close>

text \<open>
  Claim C10. Intent detection is first-match-wins: a question whose lower-cased text
  contains "compare" has intent comparison whatever else it contains; without "compare"
  but with "trend" it has intent trend; without both but with "argument" or "promote"
  it has intent policy_arguments.
\<close>

theorem intent_precedence:
  "(contains (str ''compare'') (py_lower q) \<longrightarrow>
      comparison_type (extract_entities wordchar q) = Some ''comparison'') \<and>
   (\<not> contains (str ''compare'') (py_lower q) \<and> contains (str ''trend'') (py_lower q) \<longrightarrow>
      comparison_type (extract_entities wordchar q) = Some ''trend'') \<and>
   (\<not> contains (str ''compare'') (py_lower q) \<and> \<not> contains (str ''trend'') (py_lower q) \<and>
    (contains (str ''argument'') (py_lower q) \<or> contains (str ''promote'') (py_lower q)) \<longrightarrow>
      comparison_type (extract_entities wordchar q) = Some ''policy_arguments'')"
  by (simp add: extract_entities_def extract_comparison_type_def Let_def)

theorem intent_precedence_witness:
  "contains (str ''compare'') (py_lower (str ''Compare the rainfall trend'')) \<and>
   contains (str ''trend'') (py_lower (str ''Compare the rainfall trend'')) \<and>
   comparison_type (extract_entities ascii_wordchar (str ''Compare the rainfall trend'')) = Some ''comparison''"
proof -
  have h: "contains (str ''compare'') (py_lower (str ''Compare the rainfall trend''))" by code_simp
  have t: "contains (str ''trend'') (py_lower (str ''Compare the rainfall trend''))" by code_simp
  from intent_precedence [where q = "str ''Compare the rainfall trend''" and
      wordchar = ascii_wordchar] h t
  show ?thesis by blast
qed

subsection \<open>Crop extraction\<close>

lemma count_collect_matches:
  "distinct (map fst table) \<Longrightarrow>
   count_list (collect_matches table ql) name =
     (if \<exists>kws. (name, kws) \<in> set table \<and> any_in kws ql then 1 else 0)"
proof (induction table)
  case Nil
  then show ?case by simp
next
  case (Cons entry rest)
  obtain n ks where entry: "entry = (n, ks)" by (cases entry)
  from Cons.prems have fresh: "n \<notin> fst ` set rest" and d: "distinct (map fst rest)"
    by (simp_all add: entry)
  from fresh have no: "\<And>kws. (n, kws) \<notin> set rest" by force
  show ?case
  proof (cases "name = n")
    case True
    with Cons.IH [OF d] no show ?thesis by (auto simp: entry)
  next
    case False
    with Cons.IH [OF d] show ?thesis by (auto simp: entry)
  qed
qed

lemma distinct_crop_keywords: "distinct (map fst crop_keywords)"
  by (simp add: crop_keywords_def)

text \<open>
  Claim C4. If the lower-cased question contains any synonym of a crop's keyword set,
  the extracted crop list holds the crop's canonical name exactly once, however many
  of the synonyms occur.
\<close>

theorem crop_extracted_once:
  "(crop, synonyms) \<in> set crop_keywords \<Longrightarrow> synonym \<in> set synonyms \<Longrightarrow>
   contains (str synonym) (py_lower q) \<Longrightarrow>
   count_list (crops (extract_entities wordchar q)) crop = 1"
proof -
  assume a: "(crop, synonyms) \<in> set crop_keywords" "synonym \<in> set synonyms"
    "contains (str synonym) (py_lower q)"
  then have "any_in synonyms (py_lower q)"
    by (auto simp: any_in_def list_ex_iff)
  with a(1) show ?thesis
    by (auto simp: extract_entities_def Let_def count_collect_matches [OF distinct_crop_keywords])
qed

theorem crop_extracted_once_witness:
  "(''Bajra'', [''bajra'', ''pearl millet'', ''millet'']) \<in> set crop_keywords \<and>
   ''millet'' \<in> set [''bajra'', ''pearl millet'', ''millet''] \<and>
   contains (str ''millet'') (py_lower (str ''Is Pearl Millet (bajra) a millet?'')) \<and>
   contains (str ''pearl millet'') (py_lower (str ''Is Pearl Millet (bajra) a millet?'')) \<and>
   contains (str ''bajra'') (py_lower (str ''Is Pearl Millet (bajra) a millet?'')) \<and>
   count_list (crops (extract_entities ascii_wordchar (str ''Is Pearl Millet (bajra) a millet?''))) ''Bajra'' = 1"
proof -
  have m: "(''Bajra'', [''bajra'', ''pearl millet'', ''millet'']) \<in> set crop_keywords"
    by (simp add: crop_keywords_def)
  have s: "''millet'' \<in> set [''bajra'', ''pearl millet'', ''millet'']" by simp
  have c: "contains (str ''millet'') (py_lower (str ''Is Pearl Millet (bajra) a millet?''))" by code_simp
  have c2: "contains (str ''pearl millet'') (py_lower (str ''Is Pearl Millet (bajra) a millet?''))"
    by code_simp
  have c3: "contains (str ''bajra'') (py_lower (str ''Is Pearl Millet (bajra) a millet?''))" by code_simp
  from crop_extracted_once [where wordchar = ascii_wordchar, OF m s c] m s c c2 c3
  show ?thesis by blast
qed

subsection \<open>The generators return\<close>

lemma lookup_has_key: "has_key d k \<Longrightarrow> \<exists>v. lookup d k = Inr v"
  by (auto simp: has_key_def lookup_def)

lemma lookup_InrD: "lookup d k = Inr v \<Longrightarrow> (k, v) \<in> set d"
  by (auto simp: lookup_def split: option.splits dest: map_of_SomeD)

lemma has_key_iff: "has_key d k \<longleftrightarrow> k \<in> fst ` set d"
  by (simp add: has_key_def map_of_eq_None_iff)

lemma dict_set_subset: "set (dict_set k v d) \<subseteq> insert (k, v) (set d)"
  by (induction d) auto

lemma dict_set_keys: "fst ` set (dict_set k v d) = insert k (fst ` set d)"
  by (induction d) auto

lemma source_list_eq: "source_list = Inr [agriculture_source, climate_source]"
  by (simp add: source_list_def lookup_def DATA_SOURCES_def)

lemma stability_loop_ok: "\<exists>sd. stability_loop cs crop_data dry acc = Inr sd"
  by (induction cs arbitrary: acc) (auto simp: lookup_def has_key_def split: option.splits)

lemma water_savings_ok: "\<exists>ws. water_savings cs water_req_data = Inr ws"
  by (induction cs) (auto simp: lookup_def has_key_def split: option.splits)

lemma policy_result:
  "\<exists>r. generate_policy_arguments e = Inr r \<and> sources r = [agriculture_source, climate_source]"
proof -
  obtain sd where sd: "stability_loop (drought_resistant_crops @ water_intensive_crops)
      (agri_crops (target_state e)) (climate_drought_years (target_state e)) [] = Inr sd"
    using stability_loop_ok by blast
  obtain ws where ws: "water_savings drought_resistant_crops (agri_water (target_state e)) = Inr ws"
    using water_savings_ok by blast
  show ?thesis
    by (simp add: generate_policy_arguments_def Let_def sd ws source_list_eq)
qed

lemma crop_production_loop_ok:
  "\<forall>p\<in>set acc. map_of (agri_crops state) (fst p) = Some (snd p) \<Longrightarrow>
   \<exists>cp. crop_production_loop state cs acc = Inr cp \<and>
        (\<forall>p\<in>set cp. map_of (agri_crops state) (fst p) = Some (snd p))"
proof (induction cs arbitrary: acc)
  case Nil
  then show ?case by simp
next
  case (Cons c cs)
  show ?case
  proof (cases "has_key (agri_crops state) c")
    case False
    with Cons show ?thesis by simp
  next
    case True
    then obtain v where v: "map_of (agri_crops state) c = Some v"
      by (auto simp: has_key_def)
    then obtain a where a: "map_of AGRICULTURAL_DATA state = Some a" "map_of (st_crops a) c = Some v"
      by (auto simp: agri_crops_def split: option.splits)
    have inv: "\<forall>p\<in>set (dict_set c v acc). map_of (agri_crops state) (fst p) = Some (snd p)"
      using dict_set_subset [of c v acc] Cons.prems v by auto
    from Cons.IH [OF inv] True a show ?thesis by (simp add: lookup_def)
  qed
qed

lemma comparison_loop_ok:
  "\<forall>q\<in>set acc. \<forall>p\<in>set (cmp_crop_production (snd q)).
      map_of (agri_crops (fst q)) (fst p) = Some (snd p) \<Longrightarrow>
   \<exists>cd. comparison_loop ss cs acc = Inr cd \<and>
        (\<forall>q\<in>set cd. \<forall>p\<in>set (cmp_crop_production (snd q)).
            map_of (agri_crops (fst q)) (fst p) = Some (snd p)) \<and>
        fst ` set cd = fst ` set acc \<union> set ss"
proof (induction ss arbitrary: acc)
  case Nil
  then show ?case by simp
next
  case (Cons s ss)
  obtain cp where cp: "crop_production_loop s cs [] = Inr cp"
    "\<forall>p\<in>set cp. map_of (agri_crops s) (fst p) = Some (snd p)"
    using crop_production_loop_ok [of "[]" s cs] by auto
  let ?entry = "\<lparr>cmp_rainfall = climate_rainfall s, cmp_crop_production = cp,
                  cmp_climate_zone = climate_zone_of s\<rparr>"
  have inv: "\<forall>q\<in>set (dict_set s ?entry acc). \<forall>p\<in>set (cmp_crop_production (snd q)).
      map_of (agri_crops (fst q)) (fst p) = Some (snd p)"
  proof (intro ballI)
    fix q p
    assume q: "q \<in> set (dict_set s ?entry acc)" and p: "p \<in> set (cmp_crop_production (snd q))"
    from q dict_set_subset [of s ?entry acc] have "q = (s, ?entry) \<or> q \<in> set acc" by blast
    then show "map_of (agri_crops (fst q)) (fst p) = Some (snd p)"
    proof
      assume "q = (s, ?entry)"
      with p cp(2) show ?thesis by simp
    next
      assume "q \<in> set acc"
      with p Cons.prems show ?thesis by blast
    qed
  qed
  from Cons.IH [OF inv] cp(1) show ?case
    by (auto simp: dict_set_keys)
qed

lemma table_series_nonempty:
  "map_of (agri_crops s) c = Some production \<Longrightarrow> production \<noteq> []"
  by (auto simp: agri_crops_def AGRICULTURAL_DATA_def split: if_splits)

lemma table_state_known:
  "map_of (agri_crops s) c = Some production \<Longrightarrow> \<exists>a. lookup AGRICULTURAL_DATA s = Inr a"
  by (auto simp: agri_crops_def lookup_def split: option.splits)

lemma crop_lines_ok:
  "\<forall>p\<in>set cps. map_of (agri_crops state) (fst p) = Some (snd p) \<Longrightarrow>
   \<exists>ls. crop_lines state cps = Inr ls"
proof (induction cps)
  case Nil
  then show ?case by simp
next
  case (Cons p cps)
  obtain c production where p: "p = (c, production)" by (cases p)
  from Cons.prems have m: "map_of (agri_crops state) c = Some production" by (simp add: p)
  from table_series_nonempty [OF m] have av: "\<exists>x. average (map snd production) = Inr x"
    by (simp add: average_def)
  from Cons.IH Cons.prems obtain ls where ls: "crop_lines state cps = Inr ls" by auto
  from av table_state_known [OF m] ls show ?case by (auto simp: p)
qed

lemma state_sections_ok:
  "\<forall>q\<in>set cd. \<forall>p\<in>set (cmp_crop_production (snd q)).
      map_of (agri_crops (fst q)) (fst p) = Some (snd p) \<Longrightarrow>
   set ss \<subseteq> fst ` set cd \<Longrightarrow> \<exists>x. state_sections ss cd = Inr x"
proof (induction ss)
  case Nil
  then show ?case by simp
next
  case (Cons s ss)
  from Cons.prems(2) have "has_key cd s" by (simp add: has_key_iff)
  from lookup_has_key [OF this] obtain entry where entry: "lookup cd s = Inr entry" ..
  from lookup_InrD [OF entry] have "(s, entry) \<in> set cd" .
  with Cons.prems(1)
  have "\<forall>p\<in>set (cmp_crop_production (snd (s, entry))).
          map_of (agri_crops (fst (s, entry))) (fst p) = Some (snd p)"
    by (rule bspec)
  then have "\<forall>p\<in>set (cmp_crop_production entry). map_of (agri_crops s) (fst p) = Some (snd p)"
    by simp
  from crop_lines_ok [OF this] obtain ls where ls: "crop_lines s (cmp_crop_production entry) = Inr ls"
    by blast
  from Cons.IH Cons.prems obtain x where x: "state_sections ss cd = Inr x" by auto
  show ?case by (simp add: entry ls x)
qed

lemma comparison_result:
  "\<exists>r. generate_comparison e = Inr r \<and> sources r = [agriculture_source, climate_source]"
proof -
  obtain cd where cd: "comparison_loop (compared_states e) (requested_crops e) [] = Inr cd"
    and inv: "\<forall>q\<in>set cd. \<forall>p\<in>set (cmp_crop_production (snd q)).
            map_of (agri_crops (fst q)) (fst p) = Some (snd p)"
    and keys: "fst ` set cd = fst ` set [] \<union> set (compared_states e)"
    using comparison_loop_ok [of "[]" "compared_states e" "requested_crops e"] by auto
  from keys have "set (compared_states e) \<subseteq> fst ` set cd" by simp
  from state_sections_ok [OF inv this] obtain x
    where x: "state_sections (compared_states e) cd = Inr x" by blast
  show ?thesis
    by (simp add: generate_comparison_def Let_def cd x source_list_eq)
qed

lemma lookup_all_ok:
  "set ks \<subseteq> fst ` set d \<Longrightarrow> \<exists>vs. lookup_all d ks = Inr vs \<and> length vs = length ks"
proof (induction ks)
  case Nil
  then show ?case by simp
next
  case (Cons k ks)
  then have "has_key d k" by (simp add: has_key_iff)
  from lookup_has_key [OF this] obtain v where "lookup d k = Inr v" ..
  with Cons show ?case by auto
qed

lemma production_trend_ok:
  "production_data \<noteq> [] \<Longrightarrow> \<exists>t. production_trend production_data = Inr t"
proof -
  assume ne: "production_data \<noteq> []"
  have "set (sort (map fst production_data)) \<subseteq> fst ` set production_data" by simp
  from lookup_all_ok [OF this] obtain vs
    where vs: "lookup_all production_data (sort (map fst production_data)) = Inr vs"
      "length vs = length (sort (map fst production_data))" by blast
  with ne have "vs \<noteq> []" by auto
  with vs(1) show ?thesis by (simp add: production_trend_def linear_trend_def)
qed

lemma trend_lines_ok: "\<exists>ls. trend_lines cs (agri_crops state) = Inr ls"
proof (induction cs)
  case Nil
  then show ?case by simp
next
  case (Cons c cs)
  then obtain ls where ls: "trend_lines cs (agri_crops state) = Inr ls" by blast
  show ?case
  proof (cases "has_key (agri_crops state) c")
    case False
    with ls show ?thesis by simp
  next
    case True
    then obtain pd where pd: "map_of (agri_crops state) c = Some pd"
      by (auto simp: has_key_def)
    from production_trend_ok [OF table_series_nonempty [OF pd]]
    obtain t where "production_trend pd = Inr t" by blast
    with True pd ls show ?thesis by (simp add: lookup_def trend_line_def)
  qed
qed

lemma rainfall_part_ok: "\<exists>ps. rainfall_part state (climate_rainfall state) = Inr ps"
proof (cases "length (climate_rainfall state) > 1")
  case False
  then show ?thesis by (simp add: rainfall_part_def)
next
  case True
  then have ne: "map snd (climate_rainfall state) \<noteq> []" by auto
  from True obtain c where "lookup CLIMATE_DATA state = Inr c"
    by (auto simp: climate_rainfall_def lookup_def split: option.splits)
  with True ne show ?thesis by (simp add: rainfall_part_def linear_trend_def Let_def)
qed

lemma trend_result:
  "\<exists>r. generate_trend_analysis e = Inr r \<and> sources r = [agriculture_source, climate_source]"
proof -
  obtain cp where cp: "crop_production_loop (target_state e) (requested_crops e) [] = Inr cp"
    using crop_production_loop_ok [of "[]" "target_state e" "requested_crops e"] by auto
  obtain ps where ps: "rainfall_part (target_state e) (climate_rainfall (target_state e)) = Inr ps"
    using rainfall_part_ok by blast
  obtain ls where ls: "trend_lines (requested_crops e) (agri_crops (target_state e)) = Inr ls"
    using trend_lines_ok by blast
  show ?thesis
    by (simp add: generate_trend_analysis_def Let_def cp ps ls source_list_eq)
qed

lemma answer_result:
  "\<exists>r. generate_answer e q = Inr r \<and> sources r = [agriculture_source, climate_source]"
proof -
  note p = policy_result [of e] and c = comparison_result [of e] and t = trend_result [of e]
  show ?thesis
  proof (cases "comparison_type e = Some ''policy_arguments''")
    case True
    with p show ?thesis by (simp add: generate_answer_def)
  next
    case pa: False
    show ?thesis
    proof (cases "comparison_type e = Some ''comparison''")
      case True
      with pa c show ?thesis by (simp add: generate_answer_def)
    next
      case cm: False
      show ?thesis
      proof (cases "comparison_type e = Some ''trend''")
        case True
        with pa cm t show ?thesis by (simp add: generate_answer_def)
      next
        case tr: False
        show ?thesis
        proof (cases "list_ex (\<lambda>word. contains (str word) (py_lower q)) fallback_words")
          case True
          with pa cm tr p show ?thesis by (simp add: generate_answer_def)
        next
          case False
          with pa cm tr c show ?thesis by (simp add: generate_answer_def)
        qed
      qed
    qed
  qed
qed

lemma absent_states_example:
  "generate_answer (extract_entities ascii_wordchar (str ''Compare cotton in Gujarat and Haryana''))
     (str ''Compare cotton in Gujarat and Haryana'') =
   Inr \<lparr>answer =
          [Txt ''## Comparative Analysis: '', Txt ''Gujarat, Haryana'', Txt ''\<newline>\<newline>'',
           Txt ''### '', Txt ''Gujarat'', Txt ''\<newline>'',
           Txt ''- **Climate Zone**: '', Txt ''Unknown'', Txt ''\<newline>'',
           Txt ''- **Average Rainfall**: '', Fixed1 0, Txt ''mm\<newline>'', Txt ''\<newline>'',
           Txt ''### '', Txt ''Haryana'', Txt ''\<newline>'',
           Txt ''- **Climate Zone**: '', Txt ''Unknown'', Txt ''\<newline>'',
           Txt ''- **Average Rainfall**: '', Fixed1 0, Txt ''mm\<newline>'', Txt ''\<newline>''],
        data_points =
          ComparisonPoints
            [(''gujarat'',
              \<lparr>cmp_rainfall = [], cmp_crop_production = [], cmp_climate_zone = ''Unknown''\<rparr>),
             (''haryana'',
              \<lparr>cmp_rainfall = [], cmp_crop_production = [], cmp_climate_zone = ''Unknown''\<rparr>)],
        sources = [agriculture_source, climate_source]\<rparr>"
  by code_simp

text \<open>
  Claim C2. Whatever the extracted entities are, in particular for states and crops that
  the tables do not have, each of the three generators and the dispatcher returns a
  result and does not raise; this holds for the entities extracted from any question.
  For a question about gujarat and haryana, which the extractor recognises and the
  tables lack, the answer has the two state sections with zone Unknown, rainfall 0 and no
  crop line.
\<close>

theorem generators_never_raise:
  "(\<exists>r. generate_policy_arguments e = Inr r) \<and>
   (\<exists>r. generate_comparison e = Inr r) \<and>
   (\<exists>r. generate_trend_analysis e = Inr r) \<and>
   (\<exists>r. generate_answer e q = Inr r) \<and>
   (\<exists>r. generate_answer (extract_entities wordchar q) q = Inr r) \<and>
   states (extract_entities ascii_wordchar (str ''Compare cotton in Gujarat and Haryana'')) = [''gujarat'', ''haryana''] \<and>
   (\<exists>r. generate_answer (extract_entities ascii_wordchar (str ''Compare cotton in Gujarat and Haryana''))
          (str ''Compare cotton in Gujarat and Haryana'') = Inr r \<and>
        data_points r =
          ComparisonPoints
            [(''gujarat'',
              \<lparr>cmp_rainfall = [], cmp_crop_production = [], cmp_climate_zone = ''Unknown''\<rparr>),
             (''haryana'',
              \<lparr>cmp_rainfall = [], cmp_crop_production = [], cmp_climate_zone = ''Unknown''\<rparr>)])"
proof -
  have st: "states (extract_entities ascii_wordchar (str ''Compare cotton in Gujarat and Haryana'')) =
      [''gujarat'', ''haryana'']"
    by code_simp
  have ex: "\<exists>r. generate_answer (extract_entities ascii_wordchar (str ''Compare cotton in Gujarat and Haryana''))
          (str ''Compare cotton in Gujarat and Haryana'') = Inr r \<and>
        data_points r =
          ComparisonPoints
            [(''gujarat'',
              \<lparr>cmp_rainfall = [], cmp_crop_production = [], cmp_climate_zone = ''Unknown''\<rparr>),
             (''haryana'',
              \<lparr>cmp_rainfall = [], cmp_crop_production = [], cmp_climate_zone = ''Unknown''\<rparr>)]"
    unfolding absent_states_example by simp
  from policy_result [of e] have 1: "\<exists>r. generate_policy_arguments e = Inr r" by blast
  from comparison_result [of e] have 2: "\<exists>r. generate_comparison e = Inr r" by blast
  from trend_result [of e] have 3: "\<exists>r. generate_trend_analysis e = Inr r" by blast
  from answer_result [of e q] have 4: "\<exists>r. generate_answer e q = Inr r" by blast
  from answer_result [of "extract_entities wordchar q" q]
  have 5: "\<exists>r. generate_answer (extract_entities wordchar q) q = Inr r" by blast
  from 1 2 3 4 5 st ex show ?thesis by (intro conjI)
qed

text \<open>
  Claim C9. The result of each generator, and so of the dispatcher, carries exactly the
  two fixed citation records, the agriculture source followed by the climate source,
  whatever the entities and the question are.
\<close>

theorem sources_fixed:
  "(\<exists>r. generate_policy_arguments e = Inr r \<and>
        sources r = [agriculture_source, climate_source]) \<and>
   (\<exists>r. generate_comparison e = Inr r \<and>
        sources r = [agriculture_source, climate_source]) \<and>
   (\<exists>r. generate_trend_analysis e = Inr r \<and>
        sources r = [agriculture_source, climate_source]) \<and>
   (\<exists>r. generate_answer e q = Inr r \<and>
        sources r = [agriculture_source, climate_source])"
  by (intro conjI policy_result comparison_result trend_result answer_result)

subsection \<open>Dispatch\<close>

text \<open>
  Claim C3. The dispatcher gives intent policy_arguments to the policy-argument
  generator, comparison to the comparison generator and trend to the trend generator;
  with any other intent it calls the policy-argument generator exactly when the
  lower-cased question contains "drought", "resistant", "promote" or "argument", and the
  comparison generator otherwise.
\<close>

theorem dispatcher_routing:
  "(comparison_type e = Some ''policy_arguments'' \<longrightarrow>
      generate_answer e q = generate_policy_arguments e) \<and>
   (comparison_type e = Some ''comparison'' \<longrightarrow>
      generate_answer e q = generate_comparison e) \<and>
   (comparison_type e = Some ''trend'' \<longrightarrow>
      generate_answer e q = generate_trend_analysis e) \<and>
   (comparison_type e \<noteq> Some ''policy_arguments'' \<and>
    comparison_type e \<noteq> Some ''comparison'' \<and>
    comparison_type e \<noteq> Some ''trend'' \<longrightarrow>
      generate_answer e q =
        (if \<exists>w\<in>{''drought'', ''resistant'', ''promote'', ''argument''}. contains (str w) (py_lower q)
         then generate_policy_arguments e else generate_comparison e))"
  by (simp add: generate_answer_def fallback_words_def)

theorem dispatcher_routing_witness:
  "comparison_type (extract_entities ascii_wordchar (str ''Is Bajra drought tolerant?'')) = None \<and>
   contains (str ''drought'') (py_lower (str ''Is Bajra drought tolerant?'')) \<and>
   generate_answer (extract_entities ascii_wordchar (str ''Is Bajra drought tolerant?'')) (str ''Is Bajra drought tolerant?'') =
     generate_policy_arguments (extract_entities ascii_wordchar (str ''Is Bajra drought tolerant?'')) \<and>
   comparison_type (extract_entities ascii_wordchar (str ''Rainfall trend in Punjab'')) = Some ''trend'' \<and>
   generate_answer (extract_entities ascii_wordchar (str ''Rainfall trend in Punjab'')) (str ''Rainfall trend in Punjab'') =
     generate_trend_analysis (extract_entities ascii_wordchar (str ''Rainfall trend in Punjab'')) \<and>
   comparison_type (extract_entities ascii_wordchar (str ''Wheat in Haryana'')) = None \<and>
   \<not> (\<exists>w\<in>{''drought'', ''resistant'', ''promote'', ''argument''}.
        contains (str w) (py_lower (str ''Wheat in Haryana''))) \<and>
   generate_answer (extract_entities ascii_wordchar (str ''Wheat in Haryana'')) (str ''Wheat in Haryana'') =
     generate_comparison (extract_entities ascii_wordchar (str ''Wheat in Haryana''))"
proof -
  have a: "comparison_type (extract_entities ascii_wordchar (str ''Is Bajra drought tolerant?'')) = None"
    by code_simp
  have b: "contains (str ''drought'') (py_lower (str ''Is Bajra drought tolerant?''))"
    by code_simp
  have c: "comparison_type (extract_entities ascii_wordchar (str ''Rainfall trend in Punjab'')) = Some ''trend''"
    by code_simp
  have d: "comparison_type (extract_entities ascii_wordchar (str ''Wheat in Haryana'')) = None"
    by code_simp
  have f: "\<not> (\<exists>w\<in>{''drought'', ''resistant'', ''promote'', ''argument''}.
        contains (str w) (py_lower (str ''Wheat in Haryana'')))"
    by code_simp
  from dispatcher_routing [of "extract_entities ascii_wordchar (str ''Is Bajra drought tolerant?'')"
      "(str ''Is Bajra drought tolerant?'')"] a b
  have 1: "generate_answer (extract_entities ascii_wordchar (str ''Is Bajra drought tolerant?''))
      (str ''Is Bajra drought tolerant?'') =
     generate_policy_arguments (extract_entities ascii_wordchar (str ''Is Bajra drought tolerant?''))"
    by auto
  from dispatcher_routing [of "extract_entities ascii_wordchar (str ''Rainfall trend in Punjab'')"
      "(str ''Rainfall trend in Punjab'')"] c
  have 2: "generate_answer (extract_entities ascii_wordchar (str ''Rainfall trend in Punjab''))
      (str ''Rainfall trend in Punjab'') =
     generate_trend_analysis (extract_entities ascii_wordchar (str ''Rainfall trend in Punjab''))"
    by blast
  from dispatcher_routing [of "extract_entities ascii_wordchar (str ''Wheat in Haryana'')" "(str ''Wheat in Haryana'')"] d f
  have 3: "generate_answer (extract_entities ascii_wordchar (str ''Wheat in Haryana'')) (str ''Wheat in Haryana'') =
     generate_comparison (extract_entities ascii_wordchar (str ''Wheat in Haryana''))"
    by auto
  from a b c d f 1 2 3 show ?thesis by blast
qed

subsection \<open>Linear trend\<close>

lemma rajasthan_rainfall_values:
  "map snd (climate_rainfall ''rajasthan'') = [450, 380, 320, 290, 410]"
  by (simp add: climate_rainfall_def CLIMATE_DATA_def)

lemma rajasthan_rainfall_part:
  "rainfall_part ''rajasthan'' (climate_rainfall ''rajasthan'') =
     Inr [Txt ''### Climate Trends\<newline>'', Txt ''- **Rainfall Trend**: '', Txt rainfall_down,
          Txt '' by '', Fixed1 8, Txt ''mm per year\<newline>'',
          Txt ''- **Drought Years**: '', Repr [''2020'', ''2021''], Txt ''\<newline>\<newline>'']"
  by (simp add: rainfall_part_def rajasthan_rainfall_values linear_trend_def lookup_def
      CLIMATE_DATA_def Let_def)

text \<open>
  Claim C6. The linear trend of a sequence of at least two values is the last value
  minus the first, divided by the length of the sequence. On the rainfall of Rajasthan,
  450, 380, 320, 290, 410, the trend generator computes (410 - 450) / 5 = -8 and the
  answer reports it as decreasing, by 8 mm per year.
\<close>

theorem linear_trend_rajasthan:
  "(2 \<le> length values \<longrightarrow>
      linear_trend values =
        Inr ((of_int (last values) - of_int (hd values)) / of_nat (length values))) \<and>
   map snd (climate_rainfall ''rajasthan'') = [450, 380, 320, 290, 410] \<and>
   linear_trend [450, 380, 320, 290, 410] = Inr ((410 - 450) / 5) \<and>
   linear_trend [450, 380, 320, 290, 410] = Inr (- 8) \<and>
   (target_state e = ''rajasthan'' \<longrightarrow>
      (\<exists>r. generate_trend_analysis e = Inr r \<and>
           take 9 (drop 3 (answer r)) =
             [Txt ''### Climate Trends\<newline>'', Txt ''- **Rainfall Trend**: '', Txt rainfall_down,
              Txt '' by '', Fixed1 \<bar>- 8\<bar>, Txt ''mm per year\<newline>'',
              Txt ''- **Drought Years**: '', Repr [''2020'', ''2021''], Txt ''\<newline>\<newline>'']))"
proof (intro conjI impI)
  assume "2 \<le> length values"
  then have "values \<noteq> []" by auto
  then show "linear_trend values =
      Inr ((of_int (last values) - of_int (hd values)) / of_nat (length values))"
    by (simp add: linear_trend_def)
next
  show "map snd (climate_rainfall ''rajasthan'') = [450, 380, 320, 290, 410]"
    by (rule rajasthan_rainfall_values)
next
  show "linear_trend [450, 380, 320, 290, 410] = Inr ((410 - 450) / 5)"
    by (simp add: linear_trend_def)
next
  show "linear_trend [450, 380, 320, 290, 410] = Inr (- 8)"
    by (simp add: linear_trend_def)
next
  assume st: "target_state e = ''rajasthan''"
  obtain cp where cp: "crop_production_loop ''rajasthan'' (requested_crops e) [] = Inr cp"
    using crop_production_loop_ok [of "[]" "''rajasthan''" "requested_crops e"] by auto
  from trend_lines_ok [of "requested_crops e" "''rajasthan''"]
  obtain ls where ls: "trend_lines (requested_crops e) (agri_crops ''rajasthan'') = Inr ls" ..
  show "\<exists>r. generate_trend_analysis e = Inr r \<and>
           take 9 (drop 3 (answer r)) =
             [Txt ''### Climate Trends\<newline>'', Txt ''- **Rainfall Trend**: '', Txt rainfall_down,
              Txt '' by '', Fixed1 \<bar>- 8\<bar>, Txt ''mm per year\<newline>'',
              Txt ''- **Drought Years**: '', Repr [''2020'', ''2021''], Txt ''\<newline>\<newline>'']"
    by (simp add: generate_trend_analysis_def Let_def st cp ls rajasthan_rainfall_part
        source_list_eq)
qed

theorem linear_trend_rajasthan_witness:
  "2 \<le> length [450, 380, 320, 290, 410 :: int] \<and>
   linear_trend [450, 380, 320, 290, 410] = Inr (- 8) \<and>
   target_state \<lparr>states = [], crops = [], years = [], metrics = [], comparison_type = Some ''trend''\<rparr>
     = ''rajasthan'' \<and>
   (\<exists>r. generate_trend_analysis
           \<lparr>states = [], crops = [], years = [], metrics = [], comparison_type = Some ''trend''\<rparr>
         = Inr r \<and>
        take 9 (drop 3 (answer r)) =
          [Txt ''### Climate Trends\<newline>'', Txt ''- **Rainfall Trend**: '', Txt rainfall_down,
           Txt '' by '', Fixed1 8, Txt ''mm per year\<newline>'',
           Txt ''- **Drought Years**: '', Repr [''2020'', ''2021''], Txt ''\<newline>\<newline>''])"
proof -
  have l: "2 \<le> length [450, 380, 320, 290, 410 :: int]" by simp
  have t: "target_state \<lparr>states = [], crops = [], years = [], metrics = [],
      comparison_type = Some ''trend''\<rparr> = ''rajasthan''"
    by (simp add: target_state_def)
  from linear_trend_rajasthan [of "[450, 380, 320, 290, 410]"
      "\<lparr>states = [], crops = [], years = [], metrics = [], comparison_type = Some ''trend''\<rparr>"]
    l t
  show ?thesis by simp
qed

subsection \<open>The comparison generator without entities\<close>

lemma comparison_without_entities:
  "states e = [] \<Longrightarrow> crops e = [] \<Longrightarrow>
   generate_comparison e =
     generate_comparison
       \<lparr>states = [], crops = [], years = [], metrics = [], comparison_type = None\<rparr>"
  by (simp add: generate_comparison_def compared_states_def requested_crops_def)

lemma default_comparison_evaluated:
  "map_sum id (\<lambda>r. (data_points r, take 7 (drop 36 (answer r))))
     (generate_comparison
        \<lparr>states = [], crops = [], years = [], metrics = [], comparison_type = None\<rparr>) =
   Inr (ComparisonPoints
          [(''rajasthan'',
            \<lparr>cmp_rainfall = [(''2018'', 450), (''2019'', 380), (''2020'', 320), (''2021'', 290), (''2022'', 410)],
             cmp_crop_production =
               [(''Bajra'', [(''2018'', 4500), (''2019'', 4200), (''2020'', 3800), (''2021'', 3500), (''2022'', 4000)]),
                (''Wheat'', [(''2018'', 3200), (''2019'', 3100), (''2020'', 2800), (''2021'', 2500), (''2022'', 2700)])],
             cmp_climate_zone = ''Arid''\<rparr>),
           (''punjab'',
            \<lparr>cmp_rainfall = [(''2018'', 650), (''2019'', 620), (''2020'', 580), (''2021'', 590), (''2022'', 610)],
             cmp_crop_production =
               [(''Bajra'', [(''2018'', 800), (''2019'', 750), (''2020'', 700), (''2021'', 650), (''2022'', 680)]),
                (''Wheat'', [(''2018'', 18000), (''2019'', 17500), (''2020'', 17000), (''2021'', 16500), (''2022'', 16800)])],
             cmp_climate_zone = ''Semi-Arid''\<rparr>)],
        [Txt ''- **'', Txt ''Bajra'', Txt ''**: '', Grouped0 716,
         Txt '' thousand tonnes (Water: '', Txt ''Low (350-400mm)'', Txt '')\<newline>''])"
  by code_simp

lemma punjab_bajra_series:
  "lookup (agri_crops ''punjab'') ''Bajra'' =
     Inr [(''2018'', 800), (''2019'', 750), (''2020'', 700), (''2021'', 650), (''2022'', 680)]"
  by (simp add: lookup_def agri_crops_def AGRICULTURAL_DATA_def)

text \<open>
  Claim C8. With no state and no crop extracted, the comparison generator compares
  rajasthan and punjab on Bajra and Wheat, and in that run the average of Punjab's Bajra
  production over 2018 to 2022 is (800 + 750 + 700 + 650 + 680) / 5 = 716, which is the
  number on Punjab's Bajra line of the answer.
\<close>

theorem comparison_defaults:
  "states e = [] \<Longrightarrow> crops e = [] \<Longrightarrow>
   compared_states e = [''rajasthan'', ''punjab''] \<and>
   requested_crops e = [''Bajra'', ''Wheat''] \<and>
   (\<exists>r. generate_comparison e = Inr r \<and>
        data_points r =
          ComparisonPoints
            [(''rajasthan'',
              \<lparr>cmp_rainfall = [(''2018'', 450), (''2019'', 380), (''2020'', 320), (''2021'', 290), (''2022'', 410)],
               cmp_crop_production =
                 [(''Bajra'', [(''2018'', 4500), (''2019'', 4200), (''2020'', 3800), (''2021'', 3500), (''2022'', 4000)]),
                  (''Wheat'', [(''2018'', 3200), (''2019'', 3100), (''2020'', 2800), (''2021'', 2500), (''2022'', 2700)])],
               cmp_climate_zone = ''Arid''\<rparr>),
             (''punjab'',
              \<lparr>cmp_rainfall = [(''2018'', 650), (''2019'', 620), (''2020'', 580), (''2021'', 590), (''2022'', 610)],
               cmp_crop_production =
                 [(''Bajra'', [(''2018'', 800), (''2019'', 750), (''2020'', 700), (''2021'', 650), (''2022'', 680)]),
                  (''Wheat'', [(''2018'', 18000), (''2019'', 17500), (''2020'', 17000), (''2021'', 16500), (''2022'', 16800)])],
               cmp_climate_zone = ''Semi-Arid''\<rparr>)] \<and>
        take 7 (drop 36 (answer r)) =
          [Txt ''- **'', Txt ''Bajra'', Txt ''**: '', Grouped0 716,
           Txt '' thousand tonnes (Water: '', Txt ''Low (350-400mm)'', Txt '')\<newline>'']) \<and>
   lookup (agri_crops ''punjab'') ''Bajra'' =
     Inr [(''2018'', 800), (''2019'', 750), (''2020'', 700), (''2021'', 650), (''2022'', 680)] \<and>
   average [800, 750, 700, 650, 680] = Inr ((800 + 750 + 700 + 650 + 680) / 5) \<and>
   average [800, 750, 700, 650, 680] = Inr 716"
proof -
  assume s: "states e = []" and c: "crops e = []"
  let ?e0 = "\<lparr>states = [], crops = [], years = [], metrics = [], comparison_type = None\<rparr>"
  from comparison_result [of ?e0] obtain r where r: "generate_comparison ?e0 = Inr r" by auto
  have eq: "generate_comparison e = Inr r"
    by (simp add: comparison_without_entities [OF s c] r)
  from default_comparison_evaluated have ev:
    "data_points r =
          ComparisonPoints
            [(''rajasthan'',
              \<lparr>cmp_rainfall = [(''2018'', 450), (''2019'', 380), (''2020'', 320), (''2021'', 290), (''2022'', 410)],
               cmp_crop_production =
                 [(''Bajra'', [(''2018'', 4500), (''2019'', 4200), (''2020'', 3800), (''2021'', 3500), (''2022'', 4000)]),
                  (''Wheat'', [(''2018'', 3200), (''2019'', 3100), (''2020'', 2800), (''2021'', 2500), (''2022'', 2700)])],
               cmp_climate_zone = ''Arid''\<rparr>),
             (''punjab'',
              \<lparr>cmp_rainfall = [(''2018'', 650), (''2019'', 620), (''2020'', 580), (''2021'', 590), (''2022'', 610)],
               cmp_crop_production =
                 [(''Bajra'', [(''2018'', 800), (''2019'', 750), (''2020'', 700), (''2021'', 650), (''2022'', 680)]),
                  (''Wheat'', [(''2018'', 18000), (''2019'', 17500), (''2020'', 17000), (''2021'', 16500), (''2022'', 16800)])],
               cmp_climate_zone = ''Semi-Arid''\<rparr>)]"
    "take 7 (drop 36 (answer r)) =
          [Txt ''- **'', Txt ''Bajra'', Txt ''**: '', Grouped0 716,
           Txt '' thousand tonnes (Water: '', Txt ''Low (350-400mm)'', Txt '')\<newline>'']"
    unfolding r by simp_all
  have av: "average [800, 750, 700, 650, 680] = Inr ((800 + 750 + 700 + 650 + 680) / 5)"
    "average [800, 750, 700, 650, 680] = Inr 716"
    by (simp_all add: average_def)
  from s c have d: "compared_states e = [''rajasthan'', ''punjab'']"
    "requested_crops e = [''Bajra'', ''Wheat'']"
    by (simp_all add: compared_states_def requested_crops_def)
  from d eq ev av punjab_bajra_series show ?thesis by blast
qed

theorem comparison_defaults_witness:
  "states \<lparr>states = [], crops = [], years = [], metrics = [], comparison_type = None\<rparr> = [] \<and>
   crops \<lparr>states = [], crops = [], years = [], metrics = [], comparison_type = None\<rparr> = [] \<and>
   compared_states \<lparr>states = [], crops = [], years = [], metrics = [], comparison_type = None\<rparr>
     = [''rajasthan'', ''punjab''] \<and>
   (\<exists>r. generate_comparison
           \<lparr>states = [], crops = [], years = [], metrics = [], comparison_type = None\<rparr> = Inr r \<and>
        take 7 (drop 36 (answer r)) =
          [Txt ''- **'', Txt ''Bajra'', Txt ''**: '', Grouped0 716,
           Txt '' thousand tonnes (Water: '', Txt ''Low (350-400mm)'', Txt '')\<newline>''])"
proof -
  let ?e0 = "\<lparr>states = [], crops = [], years = [], metrics = [], comparison_type = None\<rparr>"
  have s: "states ?e0 = []" and c: "crops ?e0 = []" by simp_all
  from comparison_defaults [OF s c] s c show ?thesis by blast
qed

subsection \<open>Drought resilience\<close>













subsection \<open>Production trends\<close>

lemma map_insort_key: "map f (insort_key f x xs) = insort (f x) (map f xs)"
  by (induction xs) auto

lemma map_sort_key: "map f (sort_key f xs) = sort (map f xs)"
  by (induction xs) (auto simp: map_insort_key)

lemma lookup_all_map:
  "set ks \<subseteq> fst ` set d \<Longrightarrow> lookup_all d ks = Inr (map (\<lambda>k. the (map_of d k)) ks)"
proof (induction ks)
  case Nil
  then show ?case by simp
next
  case (Cons k ks)
  then have "k \<in> fst ` set d" by simp
  then obtain v where "map_of d k = Some v"
    by (cases "map_of d k") (auto simp: map_of_eq_None_iff)
  with Cons show ?case by (simp add: lookup_def)
qed

lemma sorted_values:
  assumes "distinct (map fst production_data)"
  shows "lookup_all production_data (sort (map fst production_data)) =
           Inr (map snd (sort_key fst production_data))"
proof -
  have "set (sort (map fst production_data)) \<subseteq> fst ` set production_data" by simp
  then have "lookup_all production_data (sort (map fst production_data)) =
      Inr (map (\<lambda>k. the (map_of production_data k)) (sort (map fst production_data)))"
    by (rule lookup_all_map)
  also have "map (\<lambda>k. the (map_of production_data k)) (sort (map fst production_data)) =
      map (\<lambda>p. the (map_of production_data (fst p))) (sort_key fst production_data)"
    by (simp add: map_sort_key [symmetric] comp_def)
  also have "\<dots> = map snd (sort_key fst production_data)"
  proof (rule map_cong [OF refl])
    fix p
    assume "p \<in> set (sort_key fst production_data)"
    then have "(fst p, snd p) \<in> set production_data" by simp
    with assms have "map_of production_data (fst p) = Some (snd p)"
      by (rule map_of_is_SomeI)
    then show "the (map_of production_data (fst p)) = snd p" by simp
  qed
  finally show ?thesis .
qed

lemma production_trend_sorted:
  "distinct (map fst production_data) \<Longrightarrow>
   production_trend production_data = linear_trend (map snd (sort_key fst production_data))"
  by (simp add: production_trend_def sorted_values)

lemma table_series_distinct:
  "map_of (agri_crops s) c = Some production \<Longrightarrow> distinct (map fst production)"
  by (auto simp: agri_crops_def AGRICULTURAL_DATA_def split: if_splits)

lemma trend_lines_contains:
  "trend_lines cs crop_data = Inr ls \<Longrightarrow> c \<in> set cs \<Longrightarrow>
   lookup crop_data c = Inr production_data \<Longrightarrow>
   \<exists>line pre post. trend_line c production_data = Inr line \<and> ls = pre @ line @ post"
proof (induction cs arbitrary: ls)
  case Nil
  then show ?case by simp
next
  case (Cons a cs)
  show ?case
  proof (cases "has_key crop_data a")
    case False
    with Cons.prems(3) have "a \<noteq> c" by (auto simp: has_key_def lookup_def)
    with Cons.prems(2) have c: "c \<in> set cs" by simp
    from False Cons.prems(1) have "trend_lines cs crop_data = Inr ls" by simp
    from Cons.IH [OF this c Cons.prems(3)] show ?thesis .
  next
    case True
    from lookup_has_key [OF True] obtain pd where pd: "lookup crop_data a = Inr pd" ..
    from True pd Cons.prems(1) obtain line others
      where line: "trend_line a pd = Inr line"
        and others: "trend_lines cs crop_data = Inr others"
        and ls: "ls = line @ others"
      by (auto split: sum.splits)
    show ?thesis
    proof (cases "a = c")
      case True
      with pd Cons.prems(3) have "pd = production_data" by simp
      with line True ls have "trend_line c production_data = Inr line \<and> ls = [] @ line @ others"
        by simp
      then show ?thesis by blast
    next
      case False
      with Cons.prems(2) have "c \<in> set cs" by simp
      from Cons.IH [OF others this Cons.prems(3)] obtain l pre post
        where "trend_line c production_data = Inr l" "others = pre @ l @ post" by blast
      with ls have "trend_line c production_data = Inr l \<and> ls = (line @ pre) @ l @ post"
        by simp
      then show ?thesis by blast
    qed
  qed
qed

lemma trend_answer_lines:
  "\<exists>r. generate_trend_analysis e = Inr r \<and>
     (\<forall>c\<in>set (requested_crops e). \<forall>production_data.
        lookup (agri_crops (target_state e)) c = Inr production_data \<longrightarrow>
        (\<exists>line pre post.
           trend_line c production_data = Inr line \<and> answer r = pre @ line @ post \<and>
           production_trend production_data =
             linear_trend (map snd (sort_key fst production_data))))"
proof -
  obtain cp where cp: "crop_production_loop (target_state e) (requested_crops e) [] = Inr cp"
    using crop_production_loop_ok [of "[]" "target_state e" "requested_crops e"] by auto
  from rainfall_part_ok
  obtain ps where ps: "rainfall_part (target_state e) (climate_rainfall (target_state e)) = Inr ps" ..
  from trend_lines_ok
  obtain ls where ls: "trend_lines (requested_crops e) (agri_crops (target_state e)) = Inr ls" ..
  let ?head = "[Txt ''## Trend Analysis for '', Txt (title (target_state e)),
                Txt '' (2018-2022)\<newline>\<newline>''] @ ps @ [Txt ''### Crop Production Trends\<newline>'']"
  let ?r = "\<lparr>answer = ?head @ ls,
             data_points =
               TrendPoints \<lparr>rainfall_trend = climate_rainfall (target_state e), crop_trends = cp\<rparr>,
             sources = [agriculture_source, climate_source]\<rparr>"
  have r: "generate_trend_analysis e = Inr ?r"
    by (simp add: generate_trend_analysis_def Let_def cp ps ls source_list_eq)
  have "\<exists>line pre post.
           trend_line c production_data = Inr line \<and> answer ?r = pre @ line @ post \<and>
           production_trend production_data =
             linear_trend (map snd (sort_key fst production_data))"
    if c: "c \<in> set (requested_crops e)"
      and pd: "lookup (agri_crops (target_state e)) c = Inr production_data"
    for c production_data
  proof -
    from trend_lines_contains [OF ls c pd] obtain line pre post
      where line: "trend_line c production_data = Inr line" and split: "ls = pre @ line @ post"
      by blast
    from pd have "map_of (agri_crops (target_state e)) c = Some production_data"
      by (auto simp: lookup_def split: option.splits)
    from production_trend_sorted [OF table_series_distinct [OF this]]
    have sorted: "production_trend production_data =
        linear_trend (map snd (sort_key fst production_data))" .
    from split have "answer ?r = (?head @ pre) @ line @ post" by simp
    with line sorted show ?thesis by blast
  qed
  with r show ?thesis by blast
qed

text \<open>
  Claim C7. For every requested crop that the target state's table has, the trend
  generator computes the production trend on the crop's values taken in ascending order
  of year label, and the crop's line of the answer says Increasing exactly when the
  trend is greater than 0 and Decreasing otherwise, so also for a trend of 0.
\<close>

theorem production_trend_direction:
  "(distinct (map fst series) \<longrightarrow>
      production_trend series = linear_trend (map snd (sort_key fst series))) \<and>
   (production_trend series = Inr t \<longrightarrow>
      trend_line crop series =
        Inr [Txt ''- **'', Txt crop, Txt ''**: '', Txt (if 0 < t then icon_up else icon_down),
             Txt '' '', Txt (if 0 < t then ''Increasing'' else ''Decreasing''),
             Txt '' by '', Fixed1 \<bar>t\<bar>, Txt '' thousand tonnes/year\<newline>'']) \<and>
   (\<exists>r. generate_trend_analysis e = Inr r \<and>
      (\<forall>c\<in>set (requested_crops e). \<forall>production_data.
         lookup (agri_crops (target_state e)) c = Inr production_data \<longrightarrow>
         (\<exists>line pre post.
            trend_line c production_data = Inr line \<and> answer r = pre @ line @ post \<and>
            production_trend production_data =
              linear_trend (map snd (sort_key fst production_data)))))"
proof (intro conjI impI)
  assume "distinct (map fst series)"
  then show "production_trend series = linear_trend (map snd (sort_key fst series))"
    by (rule production_trend_sorted)
next
  assume "production_trend series = Inr t"
  then show "trend_line crop series =
        Inr [Txt ''- **'', Txt crop, Txt ''**: '', Txt (if 0 < t then icon_up else icon_down),
             Txt '' '', Txt (if 0 < t then ''Increasing'' else ''Decreasing''),
             Txt '' by '', Fixed1 \<bar>t\<bar>, Txt '' thousand tonnes/year\<newline>'']"
    by (simp add: trend_line_def)
next
  show "\<exists>r. generate_trend_analysis e = Inr r \<and>
      (\<forall>c\<in>set (requested_crops e). \<forall>production_data.
         lookup (agri_crops (target_state e)) c = Inr production_data \<longrightarrow>
         (\<exists>line pre post.
            trend_line c production_data = Inr line \<and> answer r = pre @ line @ post \<and>
            production_trend production_data =
              linear_trend (map snd (sort_key fst production_data))))"
    by (rule trend_answer_lines)
qed

theorem production_trend_direction_witness:
  "distinct (map fst [(''2022'', 7 :: int), (''2018'', 7), (''2020'', 1)]) \<and>
   map snd (sort_key fst [(''2022'', 7 :: int), (''2018'', 7), (''2020'', 1)]) = [7, 1, 7] \<and>
   production_trend [(''2022'', 7), (''2018'', 7), (''2020'', 1)] = Inr 0 \<and>
   trend_line ''Guar'' [(''2022'', 7), (''2018'', 7), (''2020'', 1)] =
     Inr [Txt ''- **'', Txt ''Guar'', Txt ''**: '', Txt icon_down, Txt '' '', Txt ''Decreasing'',
          Txt '' by '', Fixed1 0, Txt '' thousand tonnes/year\<newline>''] \<and>
   ''Guar'' \<in> set (requested_crops
      \<lparr>states = [], crops = [''Guar''], years = [], metrics = [], comparison_type = None\<rparr>) \<and>
   (\<exists>r pre post.
      generate_trend_analysis
        \<lparr>states = [], crops = [''Guar''], years = [], metrics = [], comparison_type = None\<rparr> =
        Inr r \<and>
      answer r =
        pre @
        [Txt ''- **'', Txt ''Guar'', Txt ''**: '', Txt icon_down, Txt '' '', Txt ''Decreasing'',
         Txt '' by '', Fixed1 2, Txt '' thousand tonnes/year\<newline>''] @ post)"
proof -
  let ?s = "[(''2022'', 7 :: int), (''2018'', 7), (''2020'', 1)]"
  let ?e = "\<lparr>states = [], crops = [''Guar''], years = [], metrics = [], comparison_type = None\<rparr>"
  let ?guar = "[(''2018'', 600 :: int), (''2019'', 620), (''2020'', 580), (''2021'', 550),
    (''2022'', 590)]"
  have d: "distinct (map fst ?s)" by simp
  have srt: "map snd (sort_key fst ?s) = [7, 1, 7]" by code_simp
  note inst = production_trend_direction [of ?s 0 "''Guar''" ?e]
  from inst d srt have pt: "production_trend ?s = Inr 0"
    by (simp add: linear_trend_def)
  with inst have tl: "trend_line ''Guar'' ?s =
     Inr [Txt ''- **'', Txt ''Guar'', Txt ''**: '', Txt icon_down, Txt '' '', Txt ''Decreasing'',
          Txt '' by '', Fixed1 0, Txt '' thousand tonnes/year\<newline>'']"
    by simp
  have rq: "''Guar'' \<in> set (requested_crops ?e)" by (simp add: requested_crops_def)
  have lk: "lookup (agri_crops (target_state ?e)) ''Guar'' = Inr ?guar"
    by (simp add: lookup_def agri_crops_def target_state_def AGRICULTURAL_DATA_def)
  have gl: "trend_line ''Guar'' ?guar =
     Inr [Txt ''- **'', Txt ''Guar'', Txt ''**: '', Txt icon_down, Txt '' '', Txt ''Decreasing'',
          Txt '' by '', Fixed1 2, Txt '' thousand tonnes/year\<newline>'']"
    by code_simp
  from inst obtain r where r: "generate_trend_analysis ?e = Inr r"
    and all: "\<forall>c\<in>set (requested_crops ?e). \<forall>production_data.
         lookup (agri_crops (target_state ?e)) c = Inr production_data \<longrightarrow>
         (\<exists>line pre post.
            trend_line c production_data = Inr line \<and> answer r = pre @ line @ post \<and>
            production_trend production_data =
              linear_trend (map snd (sort_key fst production_data)))"
    by blast
  from bspec [OF all rq] lk obtain line pre post
    where "trend_line ''Guar'' ?guar = Inr line" and "answer r = pre @ line @ post"
    by blast
  with gl have "answer r =
        pre @
        [Txt ''- **'', Txt ''Guar'', Txt ''**: '', Txt icon_down, Txt '' '', Txt ''Decreasing'',
         Txt '' by '', Fixed1 2, Txt '' thousand tonnes/year\<newline>''] @ post"
    by simp
  with r d srt pt tl rq show ?thesis by blast
qed

subsection \<open>Years\<close>

lemma digit_code: "is_ascii_digit n \<Longrightarrow> digit_value n = k \<Longrightarrow> n = 48 + k"
  unfolding is_ascii_digit_def digit_value_def by arith

lemma digit_value_le: "is_ascii_digit n \<Longrightarrow> digit_value n \<le> 9"
  unfolding is_ascii_digit_def digit_value_def by arith

lemma four_digits_in_range:
  fixes da db dc dd :: nat
  assumes "da \<le> 9" "db \<le> 9" "dc \<le> 9" "dd \<le> 9"
    and lo: "2018 \<le> 10 * (10 * (10 * da + db) + dc) + dd"
    and hi: "10 * (10 * (10 * da + db) + dc) + dd \<le> 2024"
  shows "da = 2 \<and> db = 0 \<and>
      ((dc = 1 \<and> (dd = 8 \<or> dd = 9)) \<or>
       (dc = 2 \<and> (dd = 0 \<or> dd = 1 \<or> dd = 2 \<or> dd = 3 \<or> dd = 4)))"
proof -
  from lo have lo': "2018 \<le> 1000 * da + 100 * db + 10 * dc + dd" by simp
  from hi have hi': "1000 * da + 100 * db + 10 * dc + dd \<le> 2024" by simp
  from hi' have "da \<le> 2" by linarith
  moreover from lo' assms(2-4) have "2 \<le> da" by linarith
  ultimately have a: "da = 2" by simp
  from hi' a have "db \<le> 0" by linarith
  then have b: "db = 0" by simp
  from lo' hi' a b have r: "18 \<le> 10 * dc + dd" "10 * dc + dd \<le> 24" by simp_all
  from r assms(4) have "1 \<le> dc" "dc \<le> 2" by linarith+
  then have "dc = 1 \<or> dc = 2" by linarith
  then have "(dc = 1 \<and> (dd = 8 \<or> dd = 9)) \<or>
       (dc = 2 \<and> (dd = 0 \<or> dd = 1 \<or> dd = 2 \<or> dd = 3 \<or> dd = 4))"
  proof
    assume "dc = 1"
    with r assms(4) have "8 \<le> dd" "dd \<le> 9" by simp_all
    then have "dd = 8 \<or> dd = 9" by linarith
    with \<open>dc = 1\<close> show ?thesis by simp
  next
    assume "dc = 2"
    with r have "dd \<le> 4" by simp
    then have "dd = 0 \<or> dd = 1 \<or> dd = 2 \<or> dd = 3 \<or> dd = 4" by linarith
    with \<open>dc = 2\<close> show ?thesis by simp
  qed
  with a b show ?thesis by simp
qed

lemma year_numerals_are_tokens:
  "list_all spec_is_year_token
     (map str [''2018'', ''2019'', ''2020'', ''2021'', ''2022'', ''2023'', ''2024''])"
  by code_simp

lemma year_numerals_codes:
  "map str [''2018'', ''2019'', ''2020'', ''2021'', ''2022'', ''2023'', ''2024''] =
     [[50, 48, 49, 56], [50, 48, 49, 57], [50, 48, 50, 48], [50, 48, 50, 49],
      [50, 48, 50, 50], [50, 48, 50, 51], [50, 48, 50, 52]]"
  by (simp add: str_def)

lemma year_token_iff:
  "spec_is_year_token t \<longleftrightarrow>
     t \<in> set (map str [''2018'', ''2019'', ''2020'', ''2021'', ''2022'', ''2023'', ''2024''])"
proof
  assume "t \<in> set (map str [''2018'', ''2019'', ''2020'', ''2021'', ''2022'', ''2023'', ''2024''])"
  with year_numerals_are_tokens show "spec_is_year_token t"
    unfolding list_all_iff by (rule bspec)
next
  assume y: "spec_is_year_token t"
  then have "length t = 4" by (simp add: spec_is_year_token_def)
  then obtain a b c d where t: "t = [a, b, c, d]"
    by (auto simp: length_Suc_conv numeral_eq_Suc)
  from y have dig: "is_ascii_digit a" "is_ascii_digit b" "is_ascii_digit c" "is_ascii_digit d"
    by (simp_all add: spec_is_year_token_def t)
  from y have rng:
    "2018 \<le> 10 * (10 * (10 * digit_value a + digit_value b) + digit_value c) + digit_value d"
    "10 * (10 * (10 * digit_value a + digit_value b) + digit_value c) + digit_value d \<le> 2024"
    by (simp_all add: spec_is_year_token_def t decimal_value_def)
  from four_digits_in_range [OF dig [THEN digit_value_le] rng]
  have v: "digit_value a = 2" "digit_value b = 0"
    "(digit_value c = 1 \<and> (digit_value d = 8 \<or> digit_value d = 9)) \<or>
     (digit_value c = 2 \<and> (digit_value d = 0 \<or> digit_value d = 1 \<or> digit_value d = 2 \<or>
        digit_value d = 3 \<or> digit_value d = 4))"
    by simp_all
  from digit_code [OF dig(1) v(1)] have a: "a = 50" by simp
  from digit_code [OF dig(2) v(2)] have b: "b = 48" by simp
  from v(3) digit_code [OF dig(3)] digit_code [OF dig(4)]
  have "(c = 49 \<and> (d = 56 \<or> d = 57)) \<or>
       (c = 50 \<and> (d = 48 \<or> d = 49 \<or> d = 50 \<or> d = 51 \<or> d = 52))"
    by (elim disjE conjE) simp_all
  with a b
  show "t \<in> set (map str [''2018'', ''2019'', ''2020'', ''2021'', ''2022'', ''2023'', ''2024''])"
    unfolding t year_numerals_codes by (elim disjE conjE) simp_all
qed

lemma year_token_codes:
  "spec_is_year_token t \<longleftrightarrow>
     t \<in> set [[50, 48, 49, 56], [50, 48, 49, 57], [50, 48, 50, 48], [50, 48, 50, 49],
              [50, 48, 50, 50], [50, 48, 50, 51], [50, 48, 50, 52]]"
  by (simp only: year_token_iff year_numerals_codes)

lemma year_token_digits: "spec_is_year_token t \<Longrightarrow> \<forall>c\<in>set t. is_ascii_digit c"
  by (simp add: spec_is_year_token_def list_all_iff)

lemma year_token_length: "spec_is_year_token t \<Longrightarrow> length t = 4"
  by (simp add: spec_is_year_token_def)

lemma year_prefix_iff: "year_prefix s \<longleftrightarrow> 4 \<le> length s \<and> spec_is_year_token (take 4 s)"
proof (cases s)
  case Nil
  then show ?thesis by (simp add: year_prefix_def)
next
  case s1: (Cons a s')
  show ?thesis
  proof (cases s')
    case Nil
    with s1 show ?thesis by (simp add: year_prefix_def)
  next
    case s2: (Cons b s'')
    show ?thesis
    proof (cases s'')
      case Nil
      with s1 s2 show ?thesis by (simp add: year_prefix_def)
    next
      case s3: (Cons c s''')
      show ?thesis
      proof (cases s''')
        case Nil
        with s1 s2 s3 show ?thesis by (simp add: year_prefix_def)
      next
        case (Cons d rest)
        with s1 s2 s3 show ?thesis
          by (auto simp: year_prefix_def year_token_codes)
      qed
    qed
  qed
qed

lemma year_prefix_word:
  assumes digits: "\<forall>n. is_ascii_digit n \<longrightarrow> wordchar n" and y: "year_prefix s"
  shows "is_word_at wordchar s" and "wordchar (s ! 3)" and "\<forall>c\<in>set (take 4 s). wordchar c"
proof -
  from y have l: "4 \<le> length s" and t: "spec_is_year_token (take 4 s)"
    by (simp_all add: year_prefix_iff)
  from year_token_digits [OF t] digits show w: "\<forall>c\<in>set (take 4 s). wordchar c" by blast
  from l have "s ! 3 \<in> set (take 4 s)" by (auto simp: in_set_conv_nth intro!: exI [of _ 3])
  with w show "wordchar (s ! 3)" by blast
  from l obtain c cs where s: "s = c # cs" by (cases s) auto
  then have "c \<in> set (take 4 s)" by simp
  with w s show "is_word_at wordchar s" by (simp add: is_word_at_def)
qed

lemma year_scan_step:
  assumes digits: "\<forall>n. is_ascii_digit n \<longrightarrow> wordchar n"
  shows "year_scan wordchar prev_word s =
     (if s = [] then []
      else if \<not> prev_word \<and> year_prefix s \<and> \<not> is_word_at wordchar (drop 4 s)
        then take 4 s # year_scan wordchar True (drop 4 s)
      else year_scan wordchar (wordchar (hd s)) (tl s))"
proof (cases "year_prefix s")
  case True
  from year_prefix_word [OF digits True] show ?thesis
    by (subst year_scan.simps) (simp add: True)
next
  case False
  then show ?thesis by (subst year_scan.simps) simp
qed

lemma tokens_from_split:
  "tokens_from wordchar cur s =
     (if cur @ takeWhile wordchar s = [] then [] else [cur @ takeWhile wordchar s]) @
     (case dropWhile wordchar s of [] \<Rightarrow> [] | c # r \<Rightarrow> tokens_from wordchar [] r)"
  by (induction s arbitrary: cur) auto

lemma year_scan_in_word:
  assumes digits: "\<forall>n. is_ascii_digit n \<longrightarrow> wordchar n"
  shows "year_scan wordchar True s =
     (case dropWhile wordchar s of [] \<Rightarrow> [] | c # r \<Rightarrow> year_scan wordchar False r)"
proof (induction s)
  case Nil
  show ?case by (simp add: year_scan_step [OF digits, of True "[]"])
next
  case (Cons c s)
  have "year_scan wordchar True (c # s) = year_scan wordchar (wordchar c) s"
    by (simp add: year_scan_step [OF digits, of True "c # s"])
  with Cons show ?case by simp
qed

lemma match_is_token:
  assumes digits: "\<forall>n. is_ascii_digit n \<longrightarrow> wordchar n"
    and "year_prefix s" "\<not> is_word_at wordchar (drop 4 s)"
  shows "takeWhile wordchar s = take 4 s" and "dropWhile wordchar s = drop 4 s"
proof -
  from year_prefix_word(3) [OF digits assms(2)] have w: "\<forall>c\<in>set (take 4 s). wordchar c" .
  from assms(3) have r: "takeWhile wordchar (drop 4 s) = []"
    "dropWhile wordchar (drop 4 s) = drop 4 s"
    by (auto simp: is_word_at_def split: list.splits)
  have "takeWhile wordchar (take 4 s @ drop 4 s) = take 4 s @ takeWhile wordchar (drop 4 s)"
    by (rule takeWhile_append2) (use w in blast)
  then show "takeWhile wordchar s = take 4 s"
    unfolding append_take_drop_id r by simp
  have "dropWhile wordchar (take 4 s @ drop 4 s) = dropWhile wordchar (drop 4 s)"
    by (rule dropWhile_append2) (use w in blast)
  then show "dropWhile wordchar s = drop 4 s"
    unfolding append_take_drop_id r .
qed

lemma token_is_match:
  assumes "spec_is_year_token (takeWhile wordchar s)"
  shows "year_prefix s \<and> \<not> is_word_at wordchar (drop 4 s)"
proof -
  let ?w = "takeWhile wordchar s" and ?r = "dropWhile wordchar s"
  from year_token_length [OF assms] have l: "length ?w = 4" .
  have "?w @ ?r = s" by simp
  then have "?w = take (length ?w) s \<and> ?r = drop (length ?w) s"
    by (simp only: append_eq_conv_conj)
  then have t: "take 4 s = ?w" and d: "drop 4 s = ?r"
    unfolding l by simp_all
  have "\<not> is_word_at wordchar ?r"
  proof (cases ?r)
    case Nil
    show ?thesis unfolding Nil by (simp add: is_word_at_def)
  next
    case (Cons c r)
    from hd_dropWhile [of wordchar s] have "\<not> wordchar c" unfolding Cons by simp
    then show ?thesis unfolding Cons by (simp add: is_word_at_def)
  qed
  moreover from l length_takeWhile_le [of wordchar s] have "4 \<le> length s" by simp
  ultimately show ?thesis using assms by (simp add: year_prefix_iff t d)
qed

lemma year_scan_tokens:
  assumes digits: "\<forall>n. is_ascii_digit n \<longrightarrow> wordchar n"
  shows "year_scan wordchar False s = filter spec_is_year_token (tokens_from wordchar [] s)"
proof (induction s rule: length_induct)
  case (1 s)
  note IH = "1.IH" [rule_format]
  let ?w = "takeWhile wordchar s" and ?r = "dropWhile wordchar s"
  have after: "(case ?r of [] \<Rightarrow> [] | c # r \<Rightarrow> year_scan wordchar False r) =
      filter spec_is_year_token (case ?r of [] \<Rightarrow> [] | c # r \<Rightarrow> tokens_from wordchar [] r)"
  proof (cases ?r)
    case Nil
    show ?thesis unfolding Nil by simp
  next
    case (Cons c r)
    have "length ?r \<le> length s" by (rule length_dropWhile_le)
    then have "length r < length s" unfolding Cons by simp
    from IH [OF this] show ?thesis unfolding Cons by simp
  qed
  show ?case
  proof (cases s)
    case Nil
    then show ?thesis by (simp add: year_scan_step [OF digits, of False "[]"])
  next
    case (Cons c cs)
    show ?thesis
    proof (cases "year_prefix s \<and> \<not> is_word_at wordchar (drop 4 s)")
      case True
      then have tw: "?w = take 4 s" and dw: "?r = drop 4 s"
        by (simp_all add: match_is_token [OF digits])
      from True have tok: "spec_is_year_token ?w" by (simp add: year_prefix_iff tw)
      then have ne: "?w \<noteq> []" by (auto dest: year_token_length)
      from True Cons have "year_scan wordchar False s =
          take 4 s # year_scan wordchar True (drop 4 s)"
        by (subst year_scan_step [OF digits]) simp
      also have "year_scan wordchar True (drop 4 s) =
          (case ?r of [] \<Rightarrow> [] | c # r \<Rightarrow> year_scan wordchar False r)"
      proof -
        from True have "dropWhile wordchar (drop 4 s) = drop 4 s"
          by (auto simp: is_word_at_def split: list.splits)
        with year_scan_in_word [OF digits, of "drop 4 s"] show ?thesis
          by (simp only: dw)
      qed
      finally have "year_scan wordchar False s =
          ?w # filter spec_is_year_token
                 (case ?r of [] \<Rightarrow> [] | c # r \<Rightarrow> tokens_from wordchar [] r)"
        by (simp add: after tw)
      also have "\<dots> = filter spec_is_year_token (tokens_from wordchar [] s)"
        using tok ne by (subst tokens_from_split [of wordchar "[]" s]) simp
      finally show ?thesis .
    next
      case False
      with token_is_match have nt: "\<not> spec_is_year_token ?w" by blast
      from False Cons have step: "year_scan wordchar False s = year_scan wordchar (wordchar c) cs"
        by (subst year_scan_step [OF digits]) auto
      show ?thesis
      proof (cases "wordchar c")
        case True
        with Cons have dr: "?r = dropWhile wordchar cs" by simp
        from step True have "year_scan wordchar False s =
            (case ?r of [] \<Rightarrow> [] | c # r \<Rightarrow> year_scan wordchar False r)"
          by (simp add: year_scan_in_word [OF digits] dr)
        also have "\<dots> = filter spec_is_year_token (tokens_from wordchar [] s)"
          using nt by (subst tokens_from_split [of wordchar "[]" s]) (simp add: after)
        finally show ?thesis .
      next
        case nw: False
        from Cons have "length cs < length s" by simp
        from IH [OF this] step nw Cons show ?thesis by simp
      qed
    qed
  qed
qed

lemma find_years_example:
  "find_years ascii_wordchar (str ''Compare 2018, 2025 a2019 2020_ 2021 02022 (2023)'') =
     [str ''2018'', str ''2021'', str ''2023'']"
  by code_simp

text \<open>
  Claim C5. For every question, the extracted years are exactly the word-bounded 4-digit
  tokens of the question with a value from 2018 to 2024, in their order of occurrence;
  a token outside that range is not extracted. This holds for every classification of
  the code points into word characters in which the ASCII digits are word characters,
  as they are in the Unicode classification that the \<^verbatim>\<open>re\<close> module uses.
\<close>

theorem years_are_year_tokens:
  "\<forall>n. is_ascii_digit n \<longrightarrow> wordchar n \<Longrightarrow>
   years (extract_entities wordchar q) =
     filter spec_is_year_token (spec_word_tokens wordchar q)"
  by (simp add: extract_entities_def Let_def find_years_def spec_word_tokens_def year_scan_tokens)

theorem years_are_year_tokens_witness:
  "years (extract_entities (\<lambda>n. ascii_wordchar n \<or> n = 233)
      (str ''In 2018, 2025 and 2021'' @ [32, 233] @ str ''2019 2020'' @ [233])) =
     [str ''2018'', str ''2021''] \<and>
   spec_word_tokens (\<lambda>n. ascii_wordchar n \<or> n = 233)
      (str ''In 2018, 2025 and 2021'' @ [32, 233] @ str ''2019 2020'' @ [233]) =
     [str ''In'', str ''2018'', str ''2025'', str ''and'', str ''2021'',
      233 # str ''2019'', str ''2020'' @ [233]]"
proof -
  let ?w = "\<lambda>n. ascii_wordchar n \<or> n = 233"
  let ?q = "str ''In 2018, 2025 and 2021'' @ [32, 233] @ str ''2019 2020'' @ [233]"
  have d: "\<forall>n. is_ascii_digit n \<longrightarrow> ?w n"
    by (simp add: is_ascii_digit_def ascii_wordchar_def)
  have t: "spec_word_tokens ?w ?q =
     [str ''In'', str ''2018'', str ''2025'', str ''and'', str ''2021'',
      233 # str ''2019'', str ''2020'' @ [233]]"
    by code_simp
  have f: "filter spec_is_year_token
     [str ''In'', str ''2018'', str ''2025'', str ''and'', str ''2021'',
      233 # str ''2019'', str ''2020'' @ [233]] = [str ''2018'', str ''2021'']"
    by code_simp
  from years_are_year_tokens [of ?w ?q, OF d] t f show ?thesis by simp
qed

end
